theory Spec2Isabelle
  imports Complex_Main
begin

section \<open>Data model\<close>

text \<open>
  The script \<^verbatim>\<open>climate_fairness_analysis.py\<close> threads one pandas DataFrame through
  \<^verbatim>\<open>load_and_merge\<close>, \<^verbatim>\<open>normalize\<close>, \<^verbatim>\<open>compute_cfi\<close>, \<^verbatim>\<open>cluster_countries\<close> and
  \<^verbatim>\<open>create_visualizations\<close>. A DataFrame is modelled as the list of its named columns,
  in column order; a column carries its dtype. A missing value (NaN, None) is \<open>None\<close>.
  Floating-point numbers are modelled as exact reals: rounding is not modelled, the
  constants the code and the libraries compare against are kept as they are written.
\<close>

datatype column =
    ObjCol "string option list"
  | FloatCol "real option list"
  | IntCol "int list"

type_synonym frame = "(string \<times> column) list"

datatype error = KeyError string | ValueError | TypeError | FloatingPointError

text \<open>
  Every stage mutates the DataFrame it is given and returns it. An exception leaves the
  DataFrame as it was mutated up to the raise: \<open>Raises e df\<close> keeps that frame.
\<close>

datatype result = Returns frame | Raises error frame

fun final_frame :: "result \<Rightarrow> frame" where
  "final_frame (Returns df) = df"
| "final_frame (Raises e df) = df"

fun col_len :: "column \<Rightarrow> nat" where
  "col_len (ObjCol xs) = length xs"
| "col_len (FloatCol xs) = length xs"
| "col_len (IntCol xs) = length xs"

text \<open>\<^verbatim>\<open>df[name]\<close>: the column of that name, if there is one.\<close>

definition get_col :: "frame \<Rightarrow> string \<Rightarrow> column option" where
  "get_col df name = map_of df name"

text \<open>\<^verbatim>\<open>df[name] = values\<close>: replaces the column of that name where it stands, or appends
  a new column after the existing ones.\<close>

fun set_col :: "string \<Rightarrow> column \<Rightarrow> frame \<Rightarrow> frame" where
  "set_col name c [] = [(name, c)]"
| "set_col name c ((k, old) # df) =
     (if k = name then (name, c) # df else (k, old) # set_col name c df)"

definition columns :: "frame \<Rightarrow> string list" where
  "columns df = map fst df"

definition nrows :: "frame \<Rightarrow> nat" where
  "nrows df = (case df of [] \<Rightarrow> 0 | (k, c) # rest \<Rightarrow> col_len c)"

text \<open>The numeric reading of a column, as numpy converts it to float64. A column of
  text has none.\<close>

fun as_float :: "column \<Rightarrow> real option list option" where
  "as_float (FloatCol xs) = Some xs"
| "as_float (IntCol xs) = Some (map (\<lambda>i. Some (of_int i)) xs)"
| "as_float (ObjCol xs) = None"

text \<open>\<^verbatim>\<open>df[[n1, n2, ...]]\<close> handed to a scikit-learn estimator: the named columns as
  float arrays. A missing column raises KeyError, a text column ValueError.\<close>

fun select_floats :: "frame \<Rightarrow> string list \<Rightarrow> error + real option list list" where
  "select_floats df [] = Inr []"
| "select_floats df (name # names) =
     (case get_col df name of
        None \<Rightarrow> Inl (KeyError name)
      | Some c \<Rightarrow>
          (case select_floats df names of
             Inl e \<Rightarrow> Inl e
           | Inr cs \<Rightarrow>
               (case as_float c of
                  None \<Rightarrow> Inl ValueError
                | Some xs \<Rightarrow> Inr (xs # cs))))"

text \<open>\<^verbatim>\<open>df[[n1, n2, ...]] = array\<close>: one assignment per name, left to right.\<close>

fun set_float_cols :: "string list \<Rightarrow> real option list list \<Rightarrow> frame \<Rightarrow> frame" where
  "set_float_cols (name # names) (xs # cs) df =
     set_float_cols names cs (set_col name (FloatCol xs) df)"
| "set_float_cols names cs df = df"

primrec present :: "'a option list \<Rightarrow> 'a list" where
  "present [] = []"
| "present (x # xs) = (case x of None \<Rightarrow> present xs | Some v \<Rightarrow> v # present xs)"

section \<open>The scalers of scikit-learn\<close>

text \<open>
  \<^verbatim>\<open>MinMaxScaler().fit_transform\<close> with the default feature range (0, 1), one feature
  (column) at a time. Missing values are left out of the fit and stay missing. The
  data range is the maximum minus the minimum; a range below ten machine epsilons is
  taken for a constant feature and replaced by 1 (\<^verbatim>\<open>_handle_zeros_in_scale\<close>). Then
  \<^verbatim>\<open>scale_ = 1 / range\<close>, \<^verbatim>\<open>min_ = 0 - data_min * scale_\<close> (\<open>shift\<close> below) and the
  transform is \<^verbatim>\<open>X * scale_ + min_\<close>.
\<close>

definition float_eps :: real where
  "float_eps = 1 / 2 ^ 52"

definition handle_zeros_in_scale :: "real \<Rightarrow> real" where
  "handle_zeros_in_scale scale = (if scale < 10 * float_eps then 1 else scale)"

definition minmax_column :: "real option list \<Rightarrow> real option list" where
  "minmax_column xs =
     (case present xs of
        [] \<Rightarrow> xs
      | p # ps \<Rightarrow>
          (let data_min = Min (set (p # ps));
               data_max = Max (set (p # ps));
               data_range = data_max - data_min;
               scale = (1 - 0) / handle_zeros_in_scale data_range;
               shift = 0 - data_min * scale
           in map (map_option (\<lambda>x. x * scale + shift)) xs))"

text \<open>What the transform makes of a value \<open>x\<close> of a column whose values are \<open>a\<close>, in
  closed form (lemma \<open>minmax_column_Some\<close> below).\<close>

definition minmax_value :: "real list \<Rightarrow> real \<Rightarrow> real" where
  "minmax_value a x =
     (x - Min (set a)) / handle_zeros_in_scale (Max (set a) - Min (set a))"

text \<open>An estimator refuses an array with no rows (\<^verbatim>\<open>check_array\<close>: ValueError).\<close>

definition minmax_fit_transform :: "real option list list \<Rightarrow> error + real option list list" where
  "minmax_fit_transform X =
     (if \<exists>xs \<in> set X. xs = [] then Inl ValueError else Inr (map minmax_column X))"

text \<open>
  \<^verbatim>\<open>StandardScaler().fit_transform\<close>: the mean and the population variance of the
  values present; a feature whose variance is at most
  \<^verbatim>\<open>n * eps * var + (n * mean * eps) ** 2\<close> is constant (\<^verbatim>\<open>_is_constant_feature\<close>)
  and gets scale 1, any other the square root of its variance; the transform is
  \<^verbatim>\<open>(X - mean_) / scale_\<close>.
\<close>

definition mean :: "real list \<Rightarrow> real" where
  "mean p = sum_list p / real (length p)"

definition variance :: "real list \<Rightarrow> real" where
  "variance p = sum_list (map (\<lambda>x. (x - mean p) ^ 2) p) / real (length p)"

definition is_constant_feature :: "real \<Rightarrow> real \<Rightarrow> nat \<Rightarrow> bool" where
  "is_constant_feature var mu n \<longleftrightarrow>
     var \<le> real n * float_eps * var + (real n * mu * float_eps) ^ 2"

definition standard_column :: "real option list \<Rightarrow> real option list" where
  "standard_column xs =
     (case present xs of
        [] \<Rightarrow> xs
      | p # ps \<Rightarrow>
          (let mu = mean (p # ps);
               var = variance (p # ps);
               scale = (if is_constant_feature var mu (length (p # ps)) then 1
                        else sqrt var)
           in map (map_option (\<lambda>x. (x - mu) / scale)) xs))"

definition standard_fit_transform :: "real option list list \<Rightarrow> error + real option list list" where
  "standard_fit_transform X =
     (if \<exists>xs \<in> set X. xs = [] then Inl ValueError else Inr (map standard_column X))"

section \<open>normalize\<close>

definition raw_features :: "string list" where
  "raw_features = [''co2_per_capita'', ''extreme_poverty_share'', ''revenue_gap_pct'']"

definition normalize :: "frame \<Rightarrow> result" where
  "normalize df =
     (case select_floats df raw_features of
        Inl e \<Rightarrow> Raises e df
      | Inr X \<Rightarrow>
          (case minmax_fit_transform X of
             Inl e \<Rightarrow> Raises e df
           | Inr M \<Rightarrow>
               (let df1 = set_float_cols [''co2_mm'', ''poverty_mm'', ''revenue_mm''] M df
                in case select_floats df1 raw_features of
                     Inl e \<Rightarrow> Raises e df1
                   | Inr X' \<Rightarrow>
                       (case standard_fit_transform X' of
                          Inl e \<Rightarrow> Raises e df1
                        | Inr Z \<Rightarrow>
                            Returns (set_float_cols
                              [''co2_z'', ''poverty_z'', ''revenue_z''] Z df1)))))"

section \<open>load_and_merge\<close>

text \<open>
  The three CSV files are the inputs of \<^verbatim>\<open>load_and_merge\<close>; reading them is outside the
  model, which takes the three tables as read. A line of a table gives the country
  (missing when the field is empty), the year (an integer, present on every line) and
  the indicator value (missing when the field is empty).
\<close>

type_synonym obs = "string option \<times> int \<times> real option"

text \<open>\<^verbatim>\<open>latest_year\<close> is an arbitrary Python scalar.\<close>

datatype pyval = PNone | PBool bool | PInt int | PFloat real | PNaN | PStr string

fun truthy :: "pyval \<Rightarrow> bool" where
  "truthy PNone = False"
| "truthy (PBool b) = b"
| "truthy (PInt i) = (i \<noteq> 0)"
| "truthy (PFloat r) = (r \<noteq> 0)"
| "truthy PNaN = True"
| "truthy (PStr s) = (s \<noteq> [])"

text \<open>\<^verbatim>\<open>a or b\<close>\<close>

definition py_or :: "pyval \<Rightarrow> pyval \<Rightarrow> pyval" where
  "py_or a b = (if truthy a then a else b)"

text \<open>\<^verbatim>\<open>Series.max()\<close> of the year column: NaN (here \<open>None\<close>) for a table without lines.\<close>

definition series_max :: "int list \<Rightarrow> int option" where
  "series_max ys = (case ys of [] \<Rightarrow> None | y # rest \<Rightarrow> Some (Max (set (y # rest))))"

text \<open>\<^verbatim>\<open>x < y\<close> on numbers that may be NaN: a comparison with NaN is false.\<close>

fun nan_less :: "int option \<Rightarrow> int option \<Rightarrow> bool" where
  "nan_less (Some x) (Some y) = (x < y)"
| "nan_less x y = False"

text \<open>Python's \<^verbatim>\<open>min(a, b, c)\<close>: the first argument, replaced by each later one that
  compares less.\<close>

definition py_min3 :: "int option \<Rightarrow> int option \<Rightarrow> int option \<Rightarrow> int option" where
  "py_min3 a b c = (let m = (if nan_less b a then b else a) in if nan_less c m then c else m)"

definition as_pyval :: "int option \<Rightarrow> pyval" where
  "as_pyval m = (case m of None \<Rightarrow> PNaN | Some y \<Rightarrow> PInt y)"

text \<open>\<^verbatim>\<open>table['year'] == year\<close>, line by line: an integer year equals a Python number of
  the same value (\<^verbatim>\<open>True\<close> is 1, \<^verbatim>\<open>False\<close> is 0), and nothing else.\<close>

fun year_eq :: "int \<Rightarrow> pyval \<Rightarrow> bool" where
  "year_eq y (PInt i) = (y = i)"
| "year_eq y (PBool b) = (y = (if b then 1 else 0))"
| "year_eq y (PFloat r) = (of_int y = r)"
| "year_eq y PNone = False"
| "year_eq y PNaN = False"
| "year_eq y (PStr s) = False"

text \<open>\<^verbatim>\<open>table['year']\<close>\<close>

definition year_column :: "obs list \<Rightarrow> int list" where
  "year_column table = map (\<lambda>(c, y, v). y) table"

text \<open>\<^verbatim>\<open>table[table['year'] == year][['country', value]]\<close>\<close>

definition in_year :: "pyval \<Rightarrow> obs list \<Rightarrow> (string option \<times> real option) list" where
  "in_year yr table =
     map (\<lambda>(c, y, v). (c, v)) (filter (\<lambda>(c, y, v). year_eq y yr) table)"

text \<open>\<^verbatim>\<open>left.merge(right, on='country')\<close>: the inner join. Every line of the left table
  is paired with every line of the right table that has the same country, in the order
  of the left table; missing countries match each other, as pandas has it.\<close>

definition merge_on_country ::
  "(string option \<times> 'a) list \<Rightarrow> (string option \<times> 'b) list \<Rightarrow> (string option \<times> 'a \<times> 'b) list" where
  "merge_on_country left right =
     concat (map (\<lambda>(k, a). map (\<lambda>(k', b). (k, a, b)) (filter (\<lambda>(k', b). k' = k) right)) left)"

text \<open>\<^verbatim>\<open>dropna()\<close>: a line with any missing field is dropped.\<close>

definition dropna ::
  "(string option \<times> (real option \<times> real option) \<times> real option) list
   \<Rightarrow> (string option \<times> (real option \<times> real option) \<times> real option) list" where
  "dropna rows =
     filter (\<lambda>(k, (a, b), c). k \<noteq> None \<and> a \<noteq> None \<and> b \<noteq> None \<and> c \<noteq> None) rows"

text \<open>The merged table as a DataFrame: the join key, then the value columns of the
  three tables in the order they were merged.\<close>

definition to_frame ::
  "(string option \<times> (real option \<times> real option) \<times> real option) list \<Rightarrow> frame" where
  "to_frame rows =
     [(''country'', ObjCol (map (\<lambda>(k, (a, b), c). k) rows)),
      (''co2_per_capita'', FloatCol (map (\<lambda>(k, (a, b), c). a) rows)),
      (''extreme_poverty_share'', FloatCol (map (\<lambda>(k, (a, b), c). b) rows)),
      (''revenue_gap_pct'', FloatCol (map (\<lambda>(k, (a, b), c). c) rows))]"

text \<open>The shape of every merged dataset: four columns of one length, nothing
  missing.\<close>

definition merged_frame :: "string list \<Rightarrow> real list \<Rightarrow> real list \<Rightarrow> real list \<Rightarrow> frame" where
  "merged_frame cs a b c =
     [(''country'', ObjCol (map Some cs)),
      (''co2_per_capita'', FloatCol (map Some a)),
      (''extreme_poverty_share'', FloatCol (map Some b)),
      (''revenue_gap_pct'', FloatCol (map Some c))]"

definition load_and_merge :: "pyval \<Rightarrow> obs list \<Rightarrow> obs list \<Rightarrow> obs list \<Rightarrow> frame \<times> pyval" where
  "load_and_merge latest_year co2 poverty revenue =
     (let max_common = py_min3 (series_max (year_column co2))
                               (series_max (year_column poverty))
                               (series_max (year_column revenue));
          year = py_or latest_year (as_pyval max_common);
          co2_y = in_year year co2;
          pov_y = in_year year poverty;
          rev_y = in_year year revenue;
          df = merge_on_country (merge_on_country co2_y pov_y) rev_y
      in (to_frame (dropna df), year))"

section \<open>compute_cfi\<close>

text \<open>
  Arithmetic on pandas Series. A missing operand gives a missing result; arithmetic on a
  column of text raises TypeError (\<open>None\<close> below).
\<close>

fun lift2 :: "(real \<Rightarrow> real \<Rightarrow> real) \<Rightarrow> real option \<Rightarrow> real option \<Rightarrow> real option" where
  "lift2 f (Some x) (Some y) = Some (f x y)"
| "lift2 f x y = None"

definition series_mul :: "column \<Rightarrow> column \<Rightarrow> real option list option" where
  "series_mul a b =
     (case (as_float a, as_float b) of
        (Some xs, Some ys) \<Rightarrow> Some (map2 (lift2 (*)) xs ys)
      | other \<Rightarrow> None)"

definition series_add_scalar :: "column \<Rightarrow> real \<Rightarrow> real option list option" where
  "series_add_scalar a k = map_option (map (map_option (\<lambda>x. x + k))) (as_float a)"

definition series_div :: "real option list \<Rightarrow> real option list \<Rightarrow> real option list" where
  "series_div num den = map2 (lift2 (/)) num den"

text \<open>
  \<^verbatim>\<open>Series.rank(ascending=False)\<close>, with pandas' defaults \<^verbatim>\<open>method='average'\<close> and
  \<^verbatim>\<open>na_option='keep'\<close>: a value's rank is the mean of the positions its ties take in
  the descending order, that is the number of values strictly greater, plus half of the
  number of values equal to it plus one. A missing value has no rank.
\<close>

definition rank_descending :: "real option list \<Rightarrow> real option list" where
  "rank_descending xs =
     (let p = present xs
      in map (map_option (\<lambda>v. real (length (filter (\<lambda>y. v < y) p))
                                + (real (length (filter (\<lambda>y. y = v) p)) + 1) / 2)) xs)"

text \<open>The rank of a value \<open>x\<close> among the values \<open>v\<close>, none missing (lemma
  \<open>rank_descending_Some\<close> below).\<close>

definition average_rank :: "real list \<Rightarrow> real \<Rightarrow> real" where
  "average_rank v x =
     real (length (filter (\<lambda>y. x < y) v)) + (real (length (filter (\<lambda>y. y = x) v)) + 1) / 2"

text \<open>
  \<^verbatim>\<open>Series.quantile(q)\<close> on values without NaN, numpy's default linear interpolation:
  the value at the fractional position \<^verbatim>\<open>q * (n - 1)\<close> of the sorted values.
\<close>

definition quantile :: "real list \<Rightarrow> real \<Rightarrow> real" where
  "quantile vs q =
     (let pos = q * real (length vs - 1);
          lo = nat \<lfloor>pos\<rfloor>;
          hi = min (lo + 1) (length vs - 1);
          frac = pos - real lo
      in vs ! lo + (vs ! hi - vs ! lo) * frac)"

text \<open>The bin edges of \<^verbatim>\<open>pd.qcut(x, q)\<close>: the quantiles at \<^verbatim>\<open>np.linspace(0, 1, q + 1)\<close> of
  the values present. (For \<open>q = 10\<close> the doubles of \<^verbatim>\<open>np.linspace\<close> are \<open>k / 10\<close> or the
  next double above it; the model has \<open>k / 10\<close> itself.)\<close>

definition bin_edges :: "real list \<Rightarrow> nat \<Rightarrow> real list" where
  "bin_edges p q = map (\<lambda>k. quantile (sort p) (real k / real q)) [0..<q + 1]"

text \<open>
  \<^verbatim>\<open>_bins_to_cuts\<close> with \<^verbatim>\<open>right=True\<close>, \<^verbatim>\<open>include_lowest=True\<close>, \<^verbatim>\<open>labels=False\<close>:
  \<^verbatim>\<open>ids = bins.searchsorted(x, side='left')\<close> counts the edges strictly below the value,
  the lowest edge itself goes to the first bin, and the code is \<^verbatim>\<open>ids - 1\<close>. A value
  below the first or above the last edge, or a missing one, has no code.
\<close>

definition bin_code :: "real list \<Rightarrow> real option \<Rightarrow> int option" where
  "bin_code bins x =
     (case x of
        None \<Rightarrow> None
      | Some v \<Rightarrow>
          (let ids = (if v = bins ! 0 then 1 else length (filter (\<lambda>e. e < v) bins))
           in if ids = length bins \<or> ids = 0 then None else Some (int ids - 1)))"

text \<open>
  \<^verbatim>\<open>pd.qcut(x, q, labels=False)\<close> with the default \<^verbatim>\<open>duplicates='raise'\<close>: edges that are
  not pairwise different raise ValueError (\<^verbatim>\<open>Bin edges must be unique\<close>). Without any
  value present every edge is NaN, and the edges are not unique.
\<close>

definition qcut :: "real option list \<Rightarrow> nat \<Rightarrow> error + int option list" where
  "qcut x q =
     (case present x of
        [] \<Rightarrow> Inl ValueError
      | p # ps \<Rightarrow>
          (let bins = bin_edges (p # ps) q
           in if \<not> distinct bins \<and> length bins \<noteq> 2 then Inl ValueError
              else Inr (map (bin_code bins) x)))"

text \<open>\<^verbatim>\<open>codes + 1\<close>: the codes are an integer column, or a float column when one is
  missing.\<close>

definition codes_plus_one :: "int option list \<Rightarrow> column" where
  "codes_plus_one codes =
     (if None \<in> set codes then FloatCol (map (map_option (\<lambda>c. of_int c + 1)) codes)
      else IntCol (map (\<lambda>c. the c + 1) codes))"

definition epsilon :: real where
  "epsilon = 1 / 10 ^ 6"

text \<open>
  numpy divides by zero without an exception: it warns and gives inf or nan. The
  numbers of this model have no infinity, and the model stops there with
  FloatingPointError, the exception numpy raises when asked to
  (\<^verbatim>\<open>np.errstate(divide='raise')\<close>).
\<close>

definition compute_cfi :: "frame \<Rightarrow> result" where
  "compute_cfi df =
     (case get_col df ''poverty_mm'' of
        None \<Rightarrow> Raises (KeyError ''poverty_mm'') df
      | Some pov \<Rightarrow>
     (case get_col df ''revenue_mm'' of
        None \<Rightarrow> Raises (KeyError ''revenue_mm'') df
      | Some rvn \<Rightarrow>
     (case series_mul pov rvn of
        None \<Rightarrow> Raises TypeError df
      | Some num \<Rightarrow>
     (case get_col df ''co2_mm'' of
        None \<Rightarrow> Raises (KeyError ''co2_mm'') df
      | Some co2 \<Rightarrow>
     (case series_add_scalar co2 epsilon of
        None \<Rightarrow> Raises TypeError df
      | Some den \<Rightarrow>
          if Some 0 \<in> set den then Raises FloatingPointError df
          else
            (let cfi = series_div num den;
                 df1 = set_col ''CFI'' (FloatCol cfi) df;
                 df2 = set_col ''CFI_rank'' (FloatCol (rank_descending cfi)) df1
             in case qcut cfi 10 of
                  Inl e \<Rightarrow> Raises e df2
                | Inr codes \<Rightarrow>
                    Returns (set_col ''CFI_decile'' (codes_plus_one codes) df2)))))))"

text \<open>The CFI column of rows without missing values, in closed form (lemma
  \<open>cfi_series\<close> below): \<open>P\<close>, \<open>R\<close> and \<open>C\<close> are the normalized poverty, revenue and
  CO2 columns.\<close>

definition cfi_column :: "real list \<Rightarrow> real list \<Rightarrow> real list \<Rightarrow> real list" where
  "cfi_column P R C = map (\<lambda>i. P ! i * R ! i / (C ! i + epsilon)) [0..<length C]"

text \<open>The frame that \<^verbatim>\<open>normalize\<close> returns on a merged dataset (lemma
  \<open>normalize_merged\<close> below).\<close>

definition normalized_frame :: "string list \<Rightarrow> real list \<Rightarrow> real list \<Rightarrow> real list \<Rightarrow> frame" where
  "normalized_frame cs a b c =
     merged_frame cs a b c @
     [(''co2_mm'', FloatCol (map Some (map (minmax_value a) a))),
      (''poverty_mm'', FloatCol (map Some (map (minmax_value b) b))),
      (''revenue_mm'', FloatCol (map Some (map (minmax_value c) c))),
      (''co2_z'', FloatCol (standard_column (map Some a))),
      (''poverty_z'', FloatCol (standard_column (map Some b))),
      (''revenue_z'', FloatCol (standard_column (map Some c)))]"

text \<open>The CFI column of a merged dataset.\<close>

definition cfi_of :: "real list \<Rightarrow> real list \<Rightarrow> real list \<Rightarrow> real list" where
  "cfi_of a b c =
     cfi_column (map (minmax_value b) b) (map (minmax_value c) c) (map (minmax_value a) a)"

section \<open>cluster_countries\<close>

text \<open>
  \<^verbatim>\<open>KMeans(n_clusters, random_state).fit_predict(X)\<close> is scikit-learn's; it is a
  parameter of the model: a function of the number of clusters, the seed and the
  feature columns that raises or gives one cluster id per row.
\<close>

type_synonym kmeans = "nat \<Rightarrow> nat \<Rightarrow> real option list list \<Rightarrow> error + int list"

definition names :: "int \<Rightarrow> string option" where
  "names c =
     (if c = 0 then Some ''Justice Priorities''
      else if c = 1 then Some ''High-Responsibility''
      else if c = 2 then Some ''Transitional''
      else if c = 3 then Some ''Outliers''
      else None)"

text \<open>Assigning an array whose length is not the frame's raises ValueError.\<close>

definition cluster_countries :: "kmeans \<Rightarrow> frame \<Rightarrow> nat \<Rightarrow> result" where
  "cluster_countries fit_predict df n_clusters =
     (case select_floats df [''co2_z'', ''poverty_z'', ''revenue_z''] of
        Inl e \<Rightarrow> Raises e df
      | Inr X \<Rightarrow>
          (case fit_predict n_clusters 42 X of
             Inl e \<Rightarrow> Raises e df
           | Inr labels \<Rightarrow>
               if length labels \<noteq> nrows df then Raises ValueError df
               else
                 (let df1 = set_col ''cluster'' (IntCol labels) df
                  in Returns (set_col ''cluster_label'' (ObjCol (map names labels)) df1))))"

section \<open>The marker map of create_visualizations\<close>

text \<open>
  The last part of \<^verbatim>\<open>create_visualizations\<close> walks over the rows and adds a circle
  marker to a folium map. The two plotly figures before it are rendering by a library
  and are not modelled. A row is read through its cells.
\<close>

datatype cell = CStr string | CFloat real | CInt int | CNull

fun cell_at :: "column \<Rightarrow> nat \<Rightarrow> cell" where
  "cell_at (ObjCol xs) i =
     (if i < length xs then (case xs ! i of None \<Rightarrow> CNull | Some s \<Rightarrow> CStr s) else CNull)"
| "cell_at (FloatCol xs) i =
     (if i < length xs then (case xs ! i of None \<Rightarrow> CNull | Some r \<Rightarrow> CFloat r) else CNull)"
| "cell_at (IntCol xs) i = (if i < length xs then CInt (xs ! i) else CNull)"

text \<open>\<^verbatim>\<open>row.get(name)\<close>: Python's None (here \<open>None\<close>) when the frame has no such column.\<close>

definition row_get :: "frame \<Rightarrow> nat \<Rightarrow> string \<Rightarrow> cell option" where
  "row_get df i name = map_option (\<lambda>c. cell_at c i) (get_col df name)"

text \<open>\<^verbatim>\<open>pd.notnull(v)\<close>\<close>

fun notnull :: "cell option \<Rightarrow> bool" where
  "notnull None = False"
| "notnull (Some CNull) = False"
| "notnull (Some c) = True"

text \<open>\<^verbatim>\<open>px.colors.qualitative.Plotly\<close>\<close>

definition Plotly :: "string list" where
  "Plotly = [''#636EFA'', ''#EF553B'', ''#00CC96'', ''#AB63FA'', ''#FFA15A'',
             ''#19D3F3'', ''#FF6692'', ''#B6E880'', ''#FF97FF'', ''#FECB52'']"

text \<open>A circle marker: where it stands, its colour, and the two cells its popup text is
  formatted from.\<close>

record marker =
  location :: "cell \<times> cell"
  radius :: nat
  fill_color :: string
  popup :: "cell \<times> cell"

text \<open>\<^verbatim>\<open>row[name]\<close> raises KeyError without such a column.\<close>

definition row_item :: "frame \<Rightarrow> nat \<Rightarrow> string \<Rightarrow> error + cell" where
  "row_item df i name =
     (case row_get df i name of None \<Rightarrow> Inl (KeyError name) | Some c \<Rightarrow> Inr c)"

text \<open>The body of the loop, for the row at position \<open>i\<close>: the marker it adds, if any.\<close>

definition row_marker :: "frame \<Rightarrow> nat \<Rightarrow> error + marker option" where
  "row_marker df i =
     (let lat = row_get df i ''latitude''; lon = row_get df i ''longitude''
      in if notnull lat \<and> notnull lon then
           (case row_item df i ''cluster'' of
              Inl e \<Rightarrow> Inl e
            | Inr (CInt c) \<Rightarrow>
                (case row_item df i ''country'' of
                   Inl e \<Rightarrow> Inl e
                 | Inr country \<Rightarrow>
                     (case row_item df i ''cluster_label'' of
                        Inl e \<Rightarrow> Inl e
                      | Inr label \<Rightarrow>
                          Inr (Some \<lparr>location = (the lat, the lon), radius = 5,
                                     fill_color = Plotly ! nat (c mod 10),
                                     popup = (country, label)\<rparr>)))
            | Inr other \<Rightarrow> Inl TypeError)
         else Inr None)"

fun add_markers :: "frame \<Rightarrow> nat list \<Rightarrow> marker list \<Rightarrow> error + marker list" where
  "add_markers df [] m = Inr m"
| "add_markers df (i # rows) m =
     (case row_marker df i of
        Inl e \<Rightarrow> Inl e
      | Inr None \<Rightarrow> add_markers df rows m
      | Inr (Some k) \<Rightarrow> add_markers df rows (m @ [k]))"

definition cluster_map :: "frame \<Rightarrow> error + marker list" where
  "cluster_map df = add_markers df [0..<nrows df] []"

section \<open>The pipeline of main\<close>

fun next_stage :: "result \<Rightarrow> (frame \<Rightarrow> result) \<Rightarrow> result" where
  "next_stage (Returns df) stage = stage df"
| "next_stage (Raises e df) stage = Raises e df"

text \<open>\<^verbatim>\<open>main\<close> up to the annotated frame that \<^verbatim>\<open>create_visualizations\<close> receives.\<close>

definition annotated :: "kmeans \<Rightarrow> obs list \<Rightarrow> obs list \<Rightarrow> obs list \<Rightarrow> result" where
  "annotated fit_predict co2 poverty revenue =
     (let df = fst (load_and_merge PNone co2 poverty revenue)
      in next_stage (next_stage (normalize df) compute_cfi)
           (\<lambda>df. cluster_countries fit_predict df 4))"

text \<open>
  What it is for a stage to only add columns: the frame after the stage begins with the
  columns of the frame before it, each unchanged and in its place (and with them the rows
  and their order); no column name occurs twice, so what follows are new columns; and the
  number of rows is the same, in the frame and in every column.
\<close>

definition only_adds_columns :: "frame \<Rightarrow> frame \<Rightarrow> bool" where
  "only_adds_columns before after \<longleftrightarrow>
     take (length before) after = before
   \<and> distinct (columns after)
   \<and> nrows after = nrows before
   \<and> list_all (\<lambda>(name, c). col_len c = nrows before) after"

section \<open>Example inputs\<close>

text \<open>Three tables for four countries in 2020, with lines of other years and a country
  whose revenue gap is missing.\<close>

definition co2_example :: "obs list" where
  "co2_example =
     [(Some ''A'', 2019, Some 2), (Some ''A'', 2020, Some 1),
      (Some ''B'', 2020, Some 5), (Some ''C'', 2020, Some 10), (Some ''C'', 2021, Some 11),
      (Some ''D'', 2020, Some 4), (Some ''E'', 2020, Some 7)]"

definition poverty_example :: "obs list" where
  "poverty_example =
     [(Some ''A'', 2020, Some (1/2)), (Some ''B'', 2020, Some (3/10)),
      (Some ''C'', 2020, Some (1/10)), (Some ''D'', 2020, Some (1/5)),
      (Some ''E'', 2020, Some (2/5))]"

definition revenue_example :: "obs list" where
  "revenue_example =
     [(Some ''A'', 2020, Some 10), (Some ''B'', 2020, Some 5), (Some ''C'', 2020, Some 1),
      (Some ''D'', 2020, Some 3), (Some ''E'', 2020, None)]"

text \<open>The same emissions for every country.\<close>

definition co2_flat :: "obs list" where
  "co2_flat =
     [(Some ''A'', 2020, Some 5), (Some ''B'', 2020, Some 5), (Some ''C'', 2020, Some 5),
      (Some ''D'', 2020, Some 5)]"

text \<open>Revenue gaps that grow where poverty falls: the country of least poverty and the
  country of least revenue gap are different ones.\<close>

definition revenue_reversed :: "obs list" where
  "revenue_reversed =
     [(Some ''A'', 2020, Some 1), (Some ''B'', 2020, Some 5), (Some ''C'', 2020, Some 10),
      (Some ''D'', 2020, Some 3)]"

text \<open>A table with two lines for one country and year.\<close>

definition co2_twice :: "obs list" where
  "co2_twice =
     [(Some ''A'', 2020, Some 1), (Some ''A'', 2020, Some 2), (Some ''B'', 2020, Some 5)]"

text \<open>A table with two lines whose country is blank.\<close>

definition co2_blanks :: "obs list" where
  "co2_blanks =
     [(None, 2020, Some 3), (Some ''A'', 2020, Some 1), (None, 2020, Some 4),
      (Some ''B'', 2020, Some 5)]"

text \<open>A clusterer to run the pipeline with: it refuses missing values and fewer rows
  than clusters, and spreads the rows over the clusters in turn.\<close>

definition kmeans_example :: kmeans where
  "kmeans_example n_clusters random_state X =
     (case X of
        [] \<Rightarrow> Inl ValueError
      | xs # rest \<Rightarrow>
          if list_ex (\<lambda>col. None \<in> set col) X \<or> length xs < n_clusters then Inl ValueError
          else Inr (map (\<lambda>i. int (i mod n_clusters)) [0..<length xs]))"

text \<open>An annotated frame to which a user has added coordinates, one of them
  missing.\<close>

definition located_example :: frame where
  "located_example =
     [(''country'', ObjCol [Some ''A'', Some ''B'', Some ''C'']),
      (''cluster'', IntCol [0, 3, 12]),
      (''cluster_label'', ObjCol [Some ''Justice Priorities'', Some ''Outliers'', None]),
      (''latitude'', FloatCol [Some 10, None, Some (-5)]),
      (''longitude'', FloatCol [Some 20, Some 30, Some 40])]"

section \<open>The year that load_and_merge selects\<close>

lemma py_min3_Some:
  "py_min3 (Some x) (Some y) (Some z) = Some (min x (min y z))"
  by (simp add: py_min3_def Let_def min_def)

lemma series_max_nonempty:
  "ys \<noteq> [] \<Longrightarrow> series_max ys = Some (Max (set ys))"
  by (cases ys) (simp_all add: series_max_def)

lemma py_or_falsy: "\<not> truthy v \<Longrightarrow> py_or v w = py_or PNone w"
  by (simp add: py_or_def)

text \<open>
  C10. A falsy \<^verbatim>\<open>latest_year\<close> (0, 0.0, False, the empty string) gives the result of
  \<^verbatim>\<open>latest_year=None\<close>, frame and year: \<^verbatim>\<open>latest_year or max_common\<close> falls through to
  \<^verbatim>\<open>max_common\<close>. When no table is empty, that year is the least of the three tables'
  greatest years.
\<close>

theorem load_and_merge_falsy_year:
  assumes "\<not> truthy latest_year"
  shows "load_and_merge latest_year co2 poverty revenue
           = load_and_merge PNone co2 poverty revenue
       \<and> (co2 \<noteq> [] \<and> poverty \<noteq> [] \<and> revenue \<noteq> [] \<longrightarrow>
            snd (load_and_merge latest_year co2 poverty revenue)
              = PInt (min (Max (set (year_column co2)))
                       (min (Max (set (year_column poverty)))
                            (Max (set (year_column revenue))))))"
proof -
  have same: "py_or latest_year w = py_or PNone w" for w
    using assms by (rule py_or_falsy)
  have first: "load_and_merge latest_year co2 poverty revenue
                 = load_and_merge PNone co2 poverty revenue"
    by (simp add: load_and_merge_def Let_def same)
  have second: "snd (load_and_merge latest_year co2 poverty revenue)
                  = PInt (min (Max (set (year_column co2)))
                           (min (Max (set (year_column poverty)))
                                (Max (set (year_column revenue)))))"
    if ne: "co2 \<noteq> [] \<and> poverty \<noteq> [] \<and> revenue \<noteq> []"
  proof -
    from ne have "year_column co2 \<noteq> []" "year_column poverty \<noteq> []"
      "year_column revenue \<noteq> []"
      by (simp_all add: year_column_def)
    then show ?thesis
      using assms
      by (simp add: load_and_merge_def Let_def series_max_nonempty py_min3_Some
          py_or_def as_pyval_def)
  qed
  from first second show ?thesis by blast
qed

theorem load_and_merge_falsy_year_witness:
  "\<not> truthy (PInt 0)
   \<and> load_and_merge (PInt 0) co2_example poverty_example revenue_example
       = load_and_merge PNone co2_example poverty_example revenue_example
   \<and> snd (load_and_merge (PInt 0) co2_example poverty_example revenue_example) = PInt 2020"
proof -
  have f: "\<not> truthy (PInt 0)" by simp
  have ne: "co2_example \<noteq> [] \<and> poverty_example \<noteq> [] \<and> revenue_example \<noteq> []"
    by (simp add: co2_example_def poverty_example_def revenue_example_def)
  have m: "min (Max (set (year_column co2_example)))
             (min (Max (set (year_column poverty_example)))
                  (Max (set (year_column revenue_example)))) = 2020"
    by (simp add: co2_example_def poverty_example_def revenue_example_def year_column_def)
  note inst = load_and_merge_falsy_year [OF f, of co2_example poverty_example revenue_example]
  from inst have eq: "load_and_merge (PInt 0) co2_example poverty_example revenue_example
       = load_and_merge PNone co2_example poverty_example revenue_example"
    by (rule conjunct1)
  from inst ne have "snd (load_and_merge (PInt 0) co2_example poverty_example revenue_example)
      = PInt (min (Max (set (year_column co2_example)))
               (min (Max (set (year_column poverty_example)))
                    (Max (set (year_column revenue_example)))))"
    by blast
  with m have yr: "snd (load_and_merge (PInt 0) co2_example poverty_example revenue_example)
      = PInt 2020"
    by (simp only:)
  from f eq yr show ?thesis by blast
qed

section \<open>Frames\<close>

lemma get_col_set_col:
  "get_col (set_col n c df) m = (if m = n then Some c else get_col df m)"
  by (induction df) (auto simp: get_col_def)

lemma set_col_fresh:
  "n \<notin> set (columns df) \<Longrightarrow> set_col n c df = df @ [(n, c)]"
  by (induction df) (auto simp: columns_def)

section \<open>The shape of a merged dataset\<close>

lemma dropna_shape:
  "\<exists>cs a b c. to_frame (dropna rows) = merged_frame cs a b c
     \<and> length a = length cs \<and> length b = length cs \<and> length c = length cs"
proof (induction rows)
  case Nil
  show ?case
    by (rule exI [of _ "[]"], rule exI [of _ "[]"], rule exI [of _ "[]"], rule exI [of _ "[]"])
       (simp add: to_frame_def dropna_def merged_frame_def)
next
  case (Cons r rows)
  then obtain cs a b c where sh: "to_frame (dropna rows) = merged_frame cs a b c"
    and len: "length a = length cs" "length b = length cs" "length c = length cs"
    by blast
  obtain k x y z where r: "r = (k, (x, y), z)" by (metis prod.collapse)
  show ?case
  proof (cases "k \<noteq> None \<and> x \<noteq> None \<and> y \<noteq> None \<and> z \<noteq> None")
    case False
    then have "dropna (r # rows) = dropna rows" by (auto simp: dropna_def r)
    with sh len show ?thesis by metis
  next
    case True
    then obtain k' x' y' z' where v: "k = Some k'" "x = Some x'" "y = Some y'" "z = Some z'"
      by auto
    have "dropna (r # rows) = r # dropna rows" by (simp add: dropna_def r v)
    with sh have "to_frame (dropna (r # rows)) = merged_frame (k' # cs) (x' # a) (y' # b) (z' # c)"
      by (simp add: to_frame_def merged_frame_def r v)
    with len show ?thesis
      by (metis length_Cons)
  qed
qed

lemma load_and_merge_shape:
  "\<exists>cs a b c. fst (load_and_merge latest_year co2 poverty revenue) = merged_frame cs a b c
     \<and> length a = length cs \<and> length b = length cs \<and> length c = length cs"
  by (simp add: load_and_merge_def Let_def dropna_shape)

section \<open>Min-max normalization\<close>

lemma present_map_Some: "present (map Some a) = a"
  by (induction a) simp_all

lemma handle_zeros_pos: "0 \<le> r \<Longrightarrow> 0 < handle_zeros_in_scale r"
  by (simp add: handle_zeros_in_scale_def float_eps_def)

lemma minmax_column_Some:
  assumes "a \<noteq> []"
  shows "minmax_column (map Some a) = map Some (map (minmax_value a) a)"
proof -
  from assms obtain p ps where a: "a = p # ps" by (cases a) auto
  have "x * (1 / h) + (0 - m * (1 / h)) = (x - m) / h" for x m h :: real
    by (simp add: diff_divide_distrib)
  then show ?thesis
    unfolding minmax_column_def present_map_Some minmax_value_def
    by (simp add: a Let_def)
qed

lemma range_nonneg:
  fixes a :: "real list"
  assumes "x \<in> set a"
  shows "Min (set a) \<le> x" "x \<le> Max (set a)" "0 \<le> Max (set a) - Min (set a)"
proof -
  show 1: "Min (set a) \<le> x" using assms by simp
  show 2: "x \<le> Max (set a)" using assms by simp
  from 1 2 show "0 \<le> Max (set a) - Min (set a)" by linarith
qed

lemma minmax_value_bounds:
  assumes "x \<in> set a"
  shows "0 \<le> minmax_value a x" "minmax_value a x \<le> 1"
proof -
  note r = range_nonneg [OF assms]
  have hp: "0 < handle_zeros_in_scale (Max (set a) - Min (set a))"
    using r(3) by (rule handle_zeros_pos)
  show "0 \<le> minmax_value a x"
    unfolding minmax_value_def using r(1) hp by simp
  show "minmax_value a x \<le> 1"
  proof (cases "Max (set a) - Min (set a) < 10 * float_eps")
    case True
    then have "handle_zeros_in_scale (Max (set a) - Min (set a)) = 1"
      by (simp add: handle_zeros_in_scale_def)
    moreover have "x - Min (set a) \<le> Max (set a) - Min (set a)" using r(2) by simp
    moreover have "10 * float_eps < 1" by (simp add: float_eps_def)
    ultimately show ?thesis unfolding minmax_value_def using True by simp
  next
    case False
    then have h: "handle_zeros_in_scale (Max (set a) - Min (set a)) = Max (set a) - Min (set a)"
      by (simp add: handle_zeros_in_scale_def)
    have "x - Min (set a) \<le> Max (set a) - Min (set a)" using r(2) by simp
    then show ?thesis unfolding minmax_value_def h using hp h by simp
  qed
qed

section \<open>What normalize returns\<close>

lemma normalize_empty:
  "normalize (merged_frame [] [] [] []) = Raises ValueError (merged_frame [] [] [] [])"
  by (simp add: normalize_def merged_frame_def raw_features_def get_col_def
      minmax_fit_transform_def)

lemma normalize_merged:
  assumes "a \<noteq> []" "b \<noteq> []" "c \<noteq> []"
  shows "normalize (merged_frame cs a b c) = Returns (normalized_frame cs a b c)"
  using assms
  by (simp add: normalize_def merged_frame_def raw_features_def get_col_def
      minmax_fit_transform_def standard_fit_transform_def normalized_frame_def
      minmax_column_Some)

section \<open>What compute_cfi does to a normalized frame\<close>

lemma normalized_frame_get:
  "get_col (normalized_frame cs a b c) ''co2_per_capita'' = Some (FloatCol (map Some a))"
  "get_col (normalized_frame cs a b c) ''extreme_poverty_share'' = Some (FloatCol (map Some b))"
  "get_col (normalized_frame cs a b c) ''revenue_gap_pct'' = Some (FloatCol (map Some c))"
  "get_col (normalized_frame cs a b c) ''co2_mm'' = Some (FloatCol (map Some (map (minmax_value a) a)))"
  "get_col (normalized_frame cs a b c) ''poverty_mm'' = Some (FloatCol (map Some (map (minmax_value b) b)))"
  "get_col (normalized_frame cs a b c) ''revenue_mm'' = Some (FloatCol (map Some (map (minmax_value c) c)))"
  by (simp_all add: normalized_frame_def merged_frame_def get_col_def)

lemma normalized_frame_set:
  "set_col ''CFI'' x (normalized_frame cs a b c) = normalized_frame cs a b c @ [(''CFI'', x)]"
  "set_col ''CFI_rank'' y (normalized_frame cs a b c @ [(''CFI'', x)])
     = normalized_frame cs a b c @ [(''CFI'', x), (''CFI_rank'', y)]"
  "set_col ''CFI_decile'' z (normalized_frame cs a b c @ [(''CFI'', x), (''CFI_rank'', y)])
     = normalized_frame cs a b c @ [(''CFI'', x), (''CFI_rank'', y), (''CFI_decile'', z)]"
  by (simp_all add: normalized_frame_def merged_frame_def)

lemma cfi_series:
  assumes "length P = length C" "length R = length C"
  shows "series_div (map2 (lift2 (*)) (map Some P) (map Some R))
           (map (map_option (\<lambda>x. x + epsilon)) (map Some C))
         = map Some (cfi_column P R C)"
  using assms
  by (intro nth_equalityI) (simp_all add: series_div_def cfi_column_def)

lemma denominators_positive:
  assumes "x \<in> set a"
  shows "0 < minmax_value a x + epsilon"
proof -
  have "0 \<le> minmax_value a x" using assms by (rule minmax_value_bounds)
  moreover have "0 < epsilon" by (simp add: epsilon_def)
  ultimately show ?thesis by linarith
qed

lemma no_zero_denominator:
  "Some 0 \<notin> set (map (map_option (\<lambda>x. x + epsilon)) (map Some (map (minmax_value a) a)))"
proof
  assume "Some 0 \<in> set (map (map_option (\<lambda>x. x + epsilon)) (map Some (map (minmax_value a) a)))"
  then obtain x where "x \<in> set a" "minmax_value a x + epsilon = 0" by auto
  with denominators_positive [of x a] show False by simp
qed

lemma compute_cfi_normalized:
  assumes "length b = length a" "length c = length a"
  shows "compute_cfi (normalized_frame cs a b c) =
     (case qcut (map Some (cfi_of a b c)) 10 of
        Inl e \<Rightarrow> Raises e (normalized_frame cs a b c @
          [(''CFI'', FloatCol (map Some (cfi_of a b c))),
           (''CFI_rank'', FloatCol (rank_descending (map Some (cfi_of a b c))))])
      | Inr codes \<Rightarrow> Returns (normalized_frame cs a b c @
          [(''CFI'', FloatCol (map Some (cfi_of a b c))),
           (''CFI_rank'', FloatCol (rank_descending (map Some (cfi_of a b c)))),
           (''CFI_decile'', codes_plus_one codes)]))"
proof -
  have s: "series_div (map2 (lift2 (*)) (map Some (map (minmax_value b) b))
              (map Some (map (minmax_value c) c)))
           (map (map_option (\<lambda>x. x + epsilon)) (map Some (map (minmax_value a) a)))
         = map Some (cfi_of a b c)"
    unfolding cfi_of_def using assms by (intro cfi_series) simp_all
  show ?thesis
    unfolding compute_cfi_def normalized_frame_get
    by (simp only: option.case series_mul_def series_add_scalar_def as_float.simps prod.case
        option.map no_zero_denominator if_False Let_def s normalized_frame_set)
qed

section \<open>The pipeline on a merged dataset\<close>

lemma nrows_merged: "nrows (merged_frame cs a b c) = length cs"
  by (simp add: nrows_def merged_frame_def)

lemma nrows_normalized: "nrows (normalized_frame cs a b c) = length cs"
  by (simp add: nrows_def normalized_frame_def merged_frame_def)

lemma normalize_returns:
  assumes "normalize (fst (load_and_merge latest_year co2 poverty revenue)) = Returns dfn"
  shows "\<exists>cs a b c. fst (load_and_merge latest_year co2 poverty revenue) = merged_frame cs a b c
           \<and> dfn = normalized_frame cs a b c \<and> a \<noteq> []
           \<and> length a = length cs \<and> length b = length cs \<and> length c = length cs"
proof -
  obtain cs a b c where sh: "fst (load_and_merge latest_year co2 poverty revenue) = merged_frame cs a b c"
    and len: "length a = length cs" "length b = length cs" "length c = length cs"
    using load_and_merge_shape by blast
  have ne: "a \<noteq> []"
  proof
    assume "a = []"
    with len have "cs = []" "b = []" "c = []" "a = []" by simp_all
    with assms sh normalize_empty show False by simp
  qed
  with len have "b \<noteq> []" "c \<noteq> []" by auto
  with ne have "normalize (merged_frame cs a b c) = Returns (normalized_frame cs a b c)"
    by (simp add: normalize_merged)
  with assms sh have "dfn = normalized_frame cs a b c" by simp
  with sh ne len show ?thesis by blast
qed

lemma qcut_error: "qcut x q = Inl e \<Longrightarrow> e = ValueError"
  by (auto simp: qcut_def Let_def split: list.splits if_splits)

lemma compute_cfi_normalized_CFI:
  assumes "length b = length a" "length c = length a"
  shows "get_col (final_frame (compute_cfi (normalized_frame cs a b c))) ''CFI''
           = Some (FloatCol (map Some (cfi_of a b c)))"
  unfolding compute_cfi_normalized [OF assms]
  by (simp add: get_col_def normalized_frame_def merged_frame_def split: sum.split)

lemma compute_cfi_normalized_rank:
  assumes "length b = length a" "length c = length a"
  shows "get_col (final_frame (compute_cfi (normalized_frame cs a b c))) ''CFI_rank''
           = Some (FloatCol (rank_descending (map Some (cfi_of a b c))))"
  unfolding compute_cfi_normalized [OF assms]
  by (simp add: get_col_def normalized_frame_def merged_frame_def split: sum.split)

lemma compute_cfi_no_division_error:
  assumes "length b = length a" "length c = length a"
  shows "compute_cfi (normalized_frame cs a b c) \<noteq> Raises FloatingPointError df'"
  unfolding compute_cfi_normalized [OF assms]
  by (auto split: sum.split dest: qcut_error)

lemma cfi_column_zip:
  assumes "length P = length C" "length R = length C"
  shows "cfi_column P R C = map (\<lambda>(p, r, c). p * r / (c + 1 / 10 ^ 6)) (zip P (zip R C))"
  using assms by (intro nth_equalityI) (simp_all add: cfi_column_def epsilon_def)

section \<open>The examples, merged\<close>

lemma example_merged:
  "fst (load_and_merge PNone co2_example poverty_example revenue_example)
     = merged_frame [''A'', ''B'', ''C'', ''D''] [1, 5, 10, 4] [1/2, 3/10, 1/10, 1/5] [10, 5, 1, 3]"
  by code_simp

lemma example_normalized:
  "normalize (fst (load_and_merge PNone co2_example poverty_example revenue_example))
     = Returns (normalized_frame [''A'', ''B'', ''C'', ''D''] [1, 5, 10, 4]
                  [1/2, 3/10, 1/10, 1/5] [10, 5, 1, 3])"
  by (simp add: example_merged normalize_merged)

lemma flat_merged:
  "fst (load_and_merge PNone co2_flat poverty_example revenue_example)
     = merged_frame [''A'', ''B'', ''C'', ''D''] [5, 5, 5, 5] [1/2, 3/10, 1/10, 1/5] [10, 5, 1, 3]"
  by code_simp

section \<open>C1\<close>

text \<open>
  C1. On every merged dataset that \<^verbatim>\<open>normalize\<close> returns a frame for, the columns
  \<^verbatim>\<open>co2_mm\<close>, \<^verbatim>\<open>poverty_mm\<close> and \<^verbatim>\<open>revenue_mm\<close> are the min-max normalizations of
  the three indicators, no value is missing, and \<^verbatim>\<open>compute_cfi\<close> sets the \<^verbatim>\<open>CFI\<close> of
  each row to \<^verbatim>\<open>poverty_mm * revenue_mm / (co2_mm + 1e-6)\<close> of that row. The frame is
  the one \<^verbatim>\<open>compute_cfi\<close> leaves, also when its later decile step raises.
\<close>

theorem compute_cfi_fairness_score:
  assumes "normalize (fst (load_and_merge latest_year co2 poverty revenue)) = Returns dfn"
  shows "\<exists>a b c P R C cfi.
     get_col dfn ''co2_per_capita'' = Some (FloatCol a)
   \<and> get_col dfn ''extreme_poverty_share'' = Some (FloatCol b)
   \<and> get_col dfn ''revenue_gap_pct'' = Some (FloatCol c)
   \<and> minmax_column a = map Some C \<and> get_col dfn ''co2_mm'' = Some (FloatCol (map Some C))
   \<and> minmax_column b = map Some P \<and> get_col dfn ''poverty_mm'' = Some (FloatCol (map Some P))
   \<and> minmax_column c = map Some R \<and> get_col dfn ''revenue_mm'' = Some (FloatCol (map Some R))
   \<and> length C = nrows dfn \<and> length P = nrows dfn \<and> length R = nrows dfn
   \<and> get_col (final_frame (compute_cfi dfn)) ''CFI'' = Some (FloatCol (map Some cfi))
   \<and> cfi = map (\<lambda>(p, r, c). p * r / (c + 1 / 10 ^ 6)) (zip P (zip R C))"
proof -
  from normalize_returns [OF assms] obtain cs a b c where
    dfn: "dfn = normalized_frame cs a b c" and ne: "a \<noteq> []"
    and len: "length a = length cs" "length b = length cs" "length c = length cs"
    by blast
  from ne len have ne': "b \<noteq> []" "c \<noteq> []" by auto
  let ?C = "map (minmax_value a) a" and ?P = "map (minmax_value b) b"
    and ?R = "map (minmax_value c) c"
  have "cfi_of a b c = map (\<lambda>(p, r, c). p * r / (c + 1 / 10 ^ 6)) (zip ?P (zip ?R ?C))"
    unfolding cfi_of_def using len by (intro cfi_column_zip) simp_all
  moreover have "get_col (final_frame (compute_cfi dfn)) ''CFI''
      = Some (FloatCol (map Some (cfi_of a b c)))"
    unfolding dfn using len by (intro compute_cfi_normalized_CFI) simp_all
  moreover have "minmax_column (map Some a) = map Some ?C"
    "minmax_column (map Some b) = map Some ?P" "minmax_column (map Some c) = map Some ?R"
    using ne ne' by (simp_all add: minmax_column_Some)
  moreover have "length ?C = nrows dfn" "length ?P = nrows dfn" "length ?R = nrows dfn"
    using len by (simp_all add: dfn nrows_normalized)
  ultimately show ?thesis
    unfolding dfn normalized_frame_get by blast
qed

theorem compute_cfi_fairness_score_witness:
  "normalize (fst (load_and_merge PNone co2_example poverty_example revenue_example))
     = Returns (normalized_frame [''A'', ''B'', ''C'', ''D''] [1, 5, 10, 4]
                  [1/2, 3/10, 1/10, 1/5] [10, 5, 1, 3])
   \<and> (\<exists>cfi. get_col (final_frame (compute_cfi (normalized_frame [''A'', ''B'', ''C'', ''D'']
                  [1, 5, 10, 4] [1/2, 3/10, 1/10, 1/5] [10, 5, 1, 3]))) ''CFI''
               = Some (FloatCol (map Some cfi)))"
  using compute_cfi_fairness_score [OF example_normalized] example_normalized by blast

section \<open>C3\<close>

text \<open>
  C3. On every merged dataset that \<^verbatim>\<open>normalize\<close> returns a frame for, no \<^verbatim>\<open>co2_mm\<close>
  is missing or negative, so that every denominator \<^verbatim>\<open>co2_mm + 1e-6\<close> is strictly
  positive, and \<^verbatim>\<open>compute_cfi\<close> never reaches the division by zero.
\<close>

theorem compute_cfi_denominator_positive:
  assumes "normalize (fst (load_and_merge latest_year co2 poverty revenue)) = Returns dfn"
  shows "\<exists>C. get_col dfn ''co2_mm'' = Some (FloatCol (map Some C))
       \<and> length C = nrows dfn
       \<and> list_all (\<lambda>x. 0 \<le> x \<and> 0 < x + 1 / 10 ^ 6) C
       \<and> (\<forall>df'. compute_cfi dfn \<noteq> Raises FloatingPointError df')"
proof -
  from normalize_returns [OF assms] obtain cs a b c where
    dfn: "dfn = normalized_frame cs a b c"
    and len: "length a = length cs" "length b = length cs" "length c = length cs"
    by blast
  let ?C = "map (minmax_value a) a"
  have "list_all (\<lambda>x. 0 \<le> x \<and> 0 < x + 1 / 10 ^ 6) ?C"
    using minmax_value_bounds(1) denominators_positive
    by (auto simp: list_all_iff epsilon_def)
  moreover have "compute_cfi dfn \<noteq> Raises FloatingPointError df'" for df'
    unfolding dfn using len by (intro compute_cfi_no_division_error) simp_all
  moreover have "length ?C = nrows dfn" using len by (simp add: dfn nrows_normalized)
  ultimately show ?thesis
    unfolding dfn normalized_frame_get by blast
qed

theorem compute_cfi_denominator_positive_witness:
  "normalize (fst (load_and_merge PNone co2_example poverty_example revenue_example))
     = Returns (normalized_frame [''A'', ''B'', ''C'', ''D''] [1, 5, 10, 4]
                  [1/2, 3/10, 1/10, 1/5] [10, 5, 1, 3])
   \<and> (\<forall>df'. compute_cfi (normalized_frame [''A'', ''B'', ''C'', ''D''] [1, 5, 10, 4]
                  [1/2, 3/10, 1/10, 1/5] [10, 5, 1, 3]) \<noteq> Raises FloatingPointError df')"
  using compute_cfi_denominator_positive [OF example_normalized] example_normalized by blast

section \<open>C2\<close>

lemma minmax_value_nonneg:
  fixes a :: "real list"
  shows "list_all (\<lambda>v. 0 \<le> v) (map (minmax_value a) a)"
  using minmax_value_bounds(1) by (simp add: list_all_iff)

lemma minmax_value_min: "minmax_value a (Min (set a)) = 0"
  by (simp add: minmax_value_def)

lemma minmax_value_at_min:
  "list_all2 (\<lambda>x v. x = Min (set a) \<longrightarrow> v = 0) a (map (minmax_value a) a)"
  by (simp add: list_all2_conv_all_nth minmax_value_min)

lemma minmax_value_constant:
  fixes a :: "real list"
  assumes "Max (set a) = Min (set a)"
  shows "list_all (\<lambda>v. v = 0) (map (minmax_value a) a)"
proof -
  have "minmax_value a x = 0" if "x \<in> set a" for x
  proof -
    from range_nonneg(1,2) [OF that] assms have "x = Min (set a)" by simp
    then show ?thesis by (simp add: minmax_value_min)
  qed
  then show ?thesis by (simp add: list_all_iff)
qed

text \<open>
  C2, as the code has it. On every merged dataset that \<^verbatim>\<open>normalize\<close> returns a frame
  for, and for each of the three indicators: the normalized column has a value on every
  row, none negative, and the rows holding the indicator's minimum get 0. On a constant
  column every row holds the minimum, and the maximum with it, and gets 0. (That the
  maximum of a column that is not constant gets 1, and that no value exceeds 1, is true
  of the scaler up to the rounding of its floating-point operations only; neither is
  stated here.)
\<close>

theorem normalize_min_max:
  assumes "normalize (fst (load_and_merge latest_year co2 poverty revenue)) = Returns dfn"
      and "(raw, mm) \<in> {(''co2_per_capita'', ''co2_mm''),
                          (''extreme_poverty_share'', ''poverty_mm''),
                          (''revenue_gap_pct'', ''revenue_mm'')}"
  shows "\<exists>a y. get_col dfn raw = Some (FloatCol (map Some a))
       \<and> get_col dfn mm = Some (FloatCol (map Some y))
       \<and> minmax_column (map Some a) = map Some y
       \<and> length a = nrows dfn \<and> length y = nrows dfn
       \<and> list_all (\<lambda>v. 0 \<le> v) y
       \<and> list_all2 (\<lambda>x v. x = Min (set a) \<longrightarrow> v = 0) a y
       \<and> (Max (set a) = Min (set a) \<longrightarrow> list_all (\<lambda>v. v = 0) y)"
proof -
  from normalize_returns [OF assms(1)] obtain cs a b c where
    dfn: "dfn = normalized_frame cs a b c" and ne: "a \<noteq> []"
    and len: "length a = length cs" "length b = length cs" "length c = length cs"
    by blast
  from ne len have ne': "b \<noteq> []" "c \<noteq> []" by auto
  have column: "\<exists>y. minmax_column (map Some x) = map Some y
       \<and> length x = nrows dfn \<and> length y = nrows dfn
       \<and> get_col dfn m = Some (FloatCol (map Some y))
       \<and> list_all (\<lambda>v. 0 \<le> v) y
       \<and> list_all2 (\<lambda>u v. u = Min (set x) \<longrightarrow> v = 0) x y
       \<and> (Max (set x) = Min (set x) \<longrightarrow> list_all (\<lambda>v. v = 0) y)"
    if "x \<noteq> []" "length x = length cs"
      "get_col dfn m = Some (FloatCol (map Some (map (minmax_value x) x)))"
    for x m
    using that minmax_value_nonneg [of x] minmax_value_at_min [of x]
      minmax_value_constant [of x]
    by (intro exI [of _ "map (minmax_value x) x"])
       (simp add: minmax_column_Some dfn nrows_normalized)
  from assms(2) consider
      "raw = ''co2_per_capita''" "mm = ''co2_mm''"
    | "raw = ''extreme_poverty_share''" "mm = ''poverty_mm''"
    | "raw = ''revenue_gap_pct''" "mm = ''revenue_mm''"
    by auto
  then show ?thesis
  proof cases
    case 1
    from column [OF ne len(1), of mm] show ?thesis
      unfolding 1 dfn normalized_frame_get by blast
  next
    case 2
    from column [OF ne'(1) len(2), of mm] show ?thesis
      unfolding 2 dfn normalized_frame_get by blast
  next
    case 3
    from column [OF ne'(2) len(3), of mm] show ?thesis
      unfolding 3 dfn normalized_frame_get by blast
  qed
qed

theorem normalize_min_max_witness:
  "normalize (fst (load_and_merge PNone co2_example poverty_example revenue_example))
     = Returns (normalized_frame [''A'', ''B'', ''C'', ''D''] [1, 5, 10, 4]
                  [1/2, 3/10, 1/10, 1/5] [10, 5, 1, 3])
   \<and> (''co2_per_capita'', ''co2_mm'') \<in> {(''co2_per_capita'', ''co2_mm''),
                          (''extreme_poverty_share'', ''poverty_mm''),
                          (''revenue_gap_pct'', ''revenue_mm'')}
   \<and> (\<exists>a y. get_col (normalized_frame [''A'', ''B'', ''C'', ''D''] [1, 5, 10, 4]
                  [1/2, 3/10, 1/10, 1/5] [10, 5, 1, 3]) ''co2_per_capita''
               = Some (FloatCol (map Some a))
          \<and> get_col (normalized_frame [''A'', ''B'', ''C'', ''D''] [1, 5, 10, 4]
                  [1/2, 3/10, 1/10, 1/5] [10, 5, 1, 3]) ''co2_mm''
               = Some (FloatCol (map Some y))
          \<and> list_all (\<lambda>v. 0 \<le> v) y
          \<and> list_all2 (\<lambda>x v. x = Min (set a) \<longrightarrow> v = 0) a y)"
proof -
  have m: "(''co2_per_capita'', ''co2_mm'') \<in> {(''co2_per_capita'', ''co2_mm''),
                          (''extreme_poverty_share'', ''poverty_mm''),
                          (''revenue_gap_pct'', ''revenue_mm'')}"
    by simp
  from normalize_min_max [OF example_normalized m] example_normalized m
  show ?thesis by blast
qed

text \<open>
  The claim fails on a constant column: with the same emissions in every country, every
  row holds the maximum of \<^verbatim>\<open>co2_per_capita\<close>, and \<^verbatim>\<open>normalize\<close> gives every row the
  \<^verbatim>\<open>co2_mm\<close> 0, not 1.
\<close>

theorem normalize_constant_column_counterexample:
  "get_col (final_frame (normalize
       (fst (load_and_merge PNone co2_flat poverty_example revenue_example))))
     ''co2_per_capita'' = Some (FloatCol [Some 5, Some 5, Some 5, Some 5])
   \<and> get_col (final_frame (normalize
       (fst (load_and_merge PNone co2_flat poverty_example revenue_example))))
     ''co2_mm'' = Some (FloatCol [Some 0, Some 0, Some 0, Some 0])"
  by (simp add: flat_merged normalize_merged normalized_frame_get minmax_value_def)

section \<open>Ranks\<close>

lemma rank_descending_Some:
  "rank_descending (map Some v) = map Some (map (average_rank v) v)"
  by (simp add: rank_descending_def present_map_Some average_rank_def Let_def)

lemma count_above:
  fixes x y :: real
  assumes "y < x"
  shows "length (filter (\<lambda>z. x < z) v) + length (filter (\<lambda>z. z = x) v)
           \<le> length (filter (\<lambda>z. y < z) v)"
  using assms by (induction v) auto

lemma count_equal_pos:
  "x \<in> set v \<Longrightarrow> 0 < length (filter (\<lambda>z. z = x) v)"
  by (induction v) auto

lemma average_rank_less:
  assumes "y < x" "y \<in> set v"
  shows "average_rank v x < average_rank v y"
proof -
  have "real (length (filter (\<lambda>z. x < z) v)) + real (length (filter (\<lambda>z. z = x) v))
          \<le> real (length (filter (\<lambda>z. y < z) v))"
    using count_above [OF assms(1), of v] by linarith
  moreover have "1 \<le> real (length (filter (\<lambda>z. z = y) v))"
    using count_equal_pos [OF assms(2)] by (simp add: Suc_le_eq)
  ultimately show ?thesis
    unfolding average_rank_def by (simp add: field_simps)
qed

lemma average_rank_iff:
  assumes "x \<in> set v" "y \<in> set v"
  shows "(y < x) = (average_rank v x < average_rank v y)"
proof
  assume "y < x"
  then show "average_rank v x < average_rank v y" using assms(2) by (rule average_rank_less)
next
  assume r: "average_rank v x < average_rank v y"
  show "y < x"
  proof (rule ccontr)
    assume "\<not> y < x"
    then consider "x = y" | "x < y" by fastforce
    then show False
    proof cases
      case 1
      with r show False by simp
    next
      case 2
      from average_rank_less [OF 2 assms(1)] r show False by simp
    qed
  qed
qed

section \<open>C4\<close>

lemma average_rank_eq_iff:
  assumes "x \<in> set v" "y \<in> set v"
  shows "(x = y) = (average_rank v x = average_rank v y)"
proof
  assume "x = y"
  then show "average_rank v x = average_rank v y" by simp
next
  assume r: "average_rank v x = average_rank v y"
  show "x = y"
  proof (rule ccontr)
    assume "x \<noteq> y"
    then consider "x < y" | "y < x" by fastforce
    then show False
    proof cases
      case 1
      from average_rank_less [OF 1 assms(1)] r show False by simp
    next
      case 2
      from average_rank_less [OF 2 assms(2)] r show False by simp
    qed
  qed
qed

lemma average_rank_distinct:
  assumes "distinct v" "x \<in> set v"
  shows "average_rank v x = real (length (filter (\<lambda>y. x < y) v)) + 1"
proof -
  have "{y. y = x} \<inter> set v = {x}" using assms(2) by auto
  with assms(1) have "length (filter (\<lambda>y. y = x) v) = 1"
    by (simp add: distinct_length_filter)
  then show ?thesis by (simp add: average_rank_def)
qed

lemma reversed_merged:
  "fst (load_and_merge PNone co2_example poverty_example revenue_reversed)
     = merged_frame [''A'', ''B'', ''C'', ''D''] [1, 5, 10, 4] [1/2, 3/10, 1/10, 1/5] [1, 5, 10, 3]"
  by code_simp

lemma reversed_normalized:
  "normalize (fst (load_and_merge PNone co2_example poverty_example revenue_reversed))
     = Returns (normalized_frame [''A'', ''B'', ''C'', ''D''] [1, 5, 10, 4]
                  [1/2, 3/10, 1/10, 1/5] [1, 5, 10, 3])"
  by (simp add: reversed_merged normalize_merged)

lemma reversed_cfi:
  "cfi_of [1, 5, 10, 4] [1/2, 3/10, 1/10, 1/5] [1, 5, 10, 3]
     = [0, 2000000 / 4000009, 0, 500000 / 3000009]"
  by code_simp

lemma reversed_rank:
  "rank_descending [Some 0, Some (2000000 / 4000009), Some 0, Some (500000 / 3000009)]
     = [Some (7/2), Some 1, Some (7/2), Some 2]"
  by code_simp

text \<open>
  C4, as the code has it. On every merged dataset that \<^verbatim>\<open>normalize\<close> returns a frame
  for, \<^verbatim>\<open>compute_cfi\<close> gives every row the rank that \<^verbatim>\<open>rank(ascending=False)\<close> defines:
  the number of rows of strictly higher CFI, plus half of one more than the number of
  rows of that same CFI. For any two rows, the first has the strictly higher CFI exactly
  when it has the strictly lower rank, and the two have the same CFI exactly when they
  have the same rank: rows that tie share a rank. The ranks order the rows strictly only
  when all scores differ; then no two rows have the same rank, and a row's rank is one
  more than the number of rows of strictly higher CFI.
\<close>

theorem rank_follows_score:
  assumes "normalize (fst (load_and_merge latest_year co2 poverty revenue)) = Returns dfn"
  shows "\<exists>cfi rk.
       get_col (final_frame (compute_cfi dfn)) ''CFI'' = Some (FloatCol (map Some cfi))
     \<and> get_col (final_frame (compute_cfi dfn)) ''CFI_rank'' = Some (FloatCol (map Some rk))
     \<and> length cfi = nrows dfn \<and> length rk = nrows dfn
     \<and> rk = map (\<lambda>x. real (length (filter (\<lambda>y. x < y) cfi))
                       + (real (length (filter (\<lambda>y. y = x) cfi)) + 1) / 2) cfi
     \<and> (\<forall>i < nrows dfn. \<forall>j < nrows dfn. (cfi ! j < cfi ! i) = (rk ! i < rk ! j))
     \<and> (\<forall>i < nrows dfn. \<forall>j < nrows dfn. (cfi ! i = cfi ! j) = (rk ! i = rk ! j))
     \<and> (distinct cfi \<longrightarrow>
          distinct rk \<and> rk = map (\<lambda>x. real (length (filter (\<lambda>y. x < y) cfi)) + 1) cfi)"
proof -
  from normalize_returns [OF assms] obtain cs a b c where
    dfn: "dfn = normalized_frame cs a b c"
    and len: "length a = length cs" "length b = length cs" "length c = length cs"
    by blast
  let ?cfi = "cfi_of a b c"
  let ?rk = "map (average_rank ?cfi) ?cfi"
  have n: "length ?cfi = nrows dfn"
    by (simp add: cfi_of_def cfi_column_def dfn nrows_normalized len)
  have 1: "get_col (final_frame (compute_cfi dfn)) ''CFI'' = Some (FloatCol (map Some ?cfi))"
    unfolding dfn using len by (intro compute_cfi_normalized_CFI) simp_all
  have 2: "get_col (final_frame (compute_cfi dfn)) ''CFI_rank'' = Some (FloatCol (map Some ?rk))"
    unfolding dfn rank_descending_Some [symmetric] using len
    by (intro compute_cfi_normalized_rank) simp_all
  have 3: "?rk = map (\<lambda>x. real (length (filter (\<lambda>y. x < y) ?cfi))
                       + (real (length (filter (\<lambda>y. y = x) ?cfi)) + 1) / 2) ?cfi"
    by (simp add: average_rank_def)
  have 4: "(?cfi ! j < ?cfi ! i) = (?rk ! i < ?rk ! j)" if "i < nrows dfn" "j < nrows dfn" for i j
    using that n average_rank_iff [of "?cfi ! i" ?cfi "?cfi ! j"] by simp
  have 5: "(?cfi ! i = ?cfi ! j) = (?rk ! i = ?rk ! j)" if "i < nrows dfn" "j < nrows dfn" for i j
    using that n average_rank_eq_iff [of "?cfi ! i" ?cfi "?cfi ! j"] by simp
  have 6: "distinct ?rk \<and> ?rk = map (\<lambda>x. real (length (filter (\<lambda>y. x < y) ?cfi)) + 1) ?cfi"
    if d: "distinct ?cfi"
  proof
    show "distinct ?rk"
      unfolding distinct_conv_nth
    proof (intro allI impI)
      fix i j assume ij: "i < length ?rk" "j < length ?rk" "i \<noteq> j"
      then have "i < nrows dfn" "j < nrows dfn" using n by simp_all
      from 5 [OF this] have "(?cfi ! i = ?cfi ! j) = (?rk ! i = ?rk ! j)" .
      moreover from d ij have "?cfi ! i \<noteq> ?cfi ! j" by (simp add: nth_eq_iff_index_eq)
      ultimately show "?rk ! i \<noteq> ?rk ! j" by simp
    qed
    show "?rk = map (\<lambda>x. real (length (filter (\<lambda>y. x < y) ?cfi)) + 1) ?cfi"
      using average_rank_distinct [OF d] by simp
  qed
  from 1 2 3 4 5 6 n show ?thesis
    by (intro exI [of _ ?cfi] exI [of _ ?rk]) simp
qed

theorem rank_follows_score_witness:
  "normalize (fst (load_and_merge PNone co2_example poverty_example revenue_example))
     = Returns (normalized_frame [''A'', ''B'', ''C'', ''D''] [1, 5, 10, 4]
                  [1/2, 3/10, 1/10, 1/5] [10, 5, 1, 3])
   \<and> (\<exists>cfi rk.
        get_col (final_frame (compute_cfi (normalized_frame [''A'', ''B'', ''C'', ''D'']
          [1, 5, 10, 4] [1/2, 3/10, 1/10, 1/5] [10, 5, 1, 3]))) ''CFI''
          = Some (FloatCol (map Some cfi))
      \<and> get_col (final_frame (compute_cfi (normalized_frame [''A'', ''B'', ''C'', ''D'']
          [1, 5, 10, 4] [1/2, 3/10, 1/10, 1/5] [10, 5, 1, 3]))) ''CFI_rank''
          = Some (FloatCol (map Some rk))
      \<and> rk = map (\<lambda>x. real (length (filter (\<lambda>y. x < y) cfi))
                       + (real (length (filter (\<lambda>y. y = x) cfi)) + 1) / 2) cfi
      \<and> (cfi ! 1 < cfi ! 0) = (rk ! 0 < rk ! 1))"
proof -
  have n: "nrows (normalized_frame [''A'', ''B'', ''C'', ''D''] [1, 5, 10, 4]
                  [1/2, 3/10, 1/10, 1/5] [10, 5, 1, 3]) = 4"
    by (simp add: nrows_normalized)
  from rank_follows_score [OF example_normalized] obtain cfi rk where
    "get_col (final_frame (compute_cfi (normalized_frame [''A'', ''B'', ''C'', ''D'']
          [1, 5, 10, 4] [1/2, 3/10, 1/10, 1/5] [10, 5, 1, 3]))) ''CFI''
          = Some (FloatCol (map Some cfi))"
    "get_col (final_frame (compute_cfi (normalized_frame [''A'', ''B'', ''C'', ''D'']
          [1, 5, 10, 4] [1/2, 3/10, 1/10, 1/5] [10, 5, 1, 3]))) ''CFI_rank''
          = Some (FloatCol (map Some rk))"
    "rk = map (\<lambda>x. real (length (filter (\<lambda>y. x < y) cfi))
                       + (real (length (filter (\<lambda>y. y = x) cfi)) + 1) / 2) cfi"
    "\<forall>i < 4. \<forall>j < 4. (cfi ! j < cfi ! i) = (rk ! i < rk ! j)"
    unfolding n by blast
  moreover from this(4) have "(cfi ! 1 < cfi ! 0) = (rk ! 0 < rk ! 1)" by simp
  ultimately show ?thesis using example_normalized by blast
qed

text \<open>
  The claim fails where two rows tie. With revenue gaps that grow where poverty falls,
  the country of least poverty and the country of least revenue gap both have the CFI 0
  and share the rank 7/2: their ranks do not order them.
\<close>

theorem rank_tie_counterexample:
  "get_col (final_frame (compute_cfi (final_frame (normalize
       (fst (load_and_merge PNone co2_example poverty_example revenue_reversed))))))
     ''CFI'' = Some (FloatCol [Some 0, Some (2000000 / 4000009), Some 0,
                                Some (500000 / 3000009)])
   \<and> get_col (final_frame (compute_cfi (final_frame (normalize
       (fst (load_and_merge PNone co2_example poverty_example revenue_reversed))))))
     ''CFI_rank'' = Some (FloatCol [Some (7/2), Some 1, Some (7/2), Some 2])"
  by (simp add: reversed_normalized compute_cfi_normalized_CFI compute_cfi_normalized_rank
      reversed_cfi reversed_rank)

lemma example_cfi:
  "cfi_of [1, 5, 10, 4] [1/2, 3/10, 1/10, 1/5] [10, 5, 1, 3]
     = [1000000, 2000000 / 4000009, 0, 500000 / 3000009]"
  by code_simp

lemma example_rank:
  "rank_descending (map Some [1000000, 2000000 / 4000009, 0, 500000 / 3000009])
     = [Some 1, Some 2, Some 4, Some 3]"
  by code_simp


section \<open>The inner join\<close>

lemma merge_on_country_Cons:
  "merge_on_country ((k, a) # left) right
     = map (\<lambda>(k', b). (k, a, b)) (filter (\<lambda>(k', b). k' = k) right)
       @ merge_on_country left right"
  by (simp add: merge_on_country_def)

lemma merge_on_country_keys:
  "set (map fst (merge_on_country left right)) \<subseteq> set (map fst left)"
proof (induction left)
  case Nil
  show ?case by (simp add: merge_on_country_def)
next
  case (Cons r left)
  obtain k a where r: "r = (k, a)" by (cases r)
  have "set (map fst (map (\<lambda>(k', b). (k, a, b)) (filter (\<lambda>(k', b). k' = k) right))) \<subseteq> {k}"
    by auto
  with Cons show ?case unfolding r merge_on_country_Cons by auto
qed

lemma one_match:
  "distinct (map fst right) \<Longrightarrow> length (filter (\<lambda>(k', b). k' = k) right) \<le> 1"
proof (induction right)
  case Nil
  show ?case by simp
next
  case (Cons r right)
  obtain k' b where r: "r = (k', b)" by (cases r)
  show ?case
  proof (cases "k' = k")
    case True
    with Cons.prems r have "k \<notin> fst ` set right" by simp
    then have "filter (\<lambda>(k', b). k' = k) right = []"
      by (force simp: filter_empty_conv)
    with True r show ?thesis by simp
  next
    case False
    with Cons r show ?thesis by simp
  qed
qed

lemma merge_on_country_distinct:
  assumes "distinct (map fst left)" "distinct (map fst right)"
  shows "distinct (map fst (merge_on_country left right))"
  using assms(1)
proof (induction left)
  case Nil
  show ?case by (simp add: merge_on_country_def)
next
  case (Cons r left)
  obtain k a where r: "r = (k, a)" by (cases r)
  let ?m = "map (\<lambda>(k', b). (k, a, b)) (filter (\<lambda>(k', b). k' = k) right)"
  have "length ?m \<le> 1" using one_match [OF assms(2), of k] by simp
  then have d: "distinct (map fst ?m)"
    by (cases ?m) (simp_all del: map_eq_Cons_conv add: length_Suc_conv)
  have s: "set (map fst ?m) \<subseteq> {k}" by auto
  from Cons.prems r have "k \<notin> set (map fst left)" by simp
  with merge_on_country_keys [of left right]
  have "k \<notin> set (map fst (merge_on_country left right))" by blast
  with s have "set (map fst ?m) \<inter> set (map fst (merge_on_country left right)) = {}"
    by blast
  moreover from Cons r have "distinct (map fst (merge_on_country left right))" by simp
  ultimately show ?case
    unfolding r merge_on_country_Cons using d by (simp del: set_map)
qed

lemma dropna_keys:
  "\<exists>cs a b c. to_frame (dropna rows) = merged_frame cs a b c
     \<and> length a = length cs \<and> length b = length cs \<and> length c = length cs
     \<and> map Some cs = map fst (dropna rows)"
proof (induction rows)
  case Nil
  show ?case
    by (rule exI [of _ "[]"], rule exI [of _ "[]"], rule exI [of _ "[]"], rule exI [of _ "[]"])
       (simp add: to_frame_def dropna_def merged_frame_def)
next
  case (Cons r rows)
  then obtain cs a b c where sh: "to_frame (dropna rows) = merged_frame cs a b c"
    and len: "length a = length cs" "length b = length cs" "length c = length cs"
    and keys: "map Some cs = map fst (dropna rows)"
    by blast
  obtain k x y z where r: "r = (k, (x, y), z)" by (metis prod.collapse)
  show ?case
  proof (cases "k \<noteq> None \<and> x \<noteq> None \<and> y \<noteq> None \<and> z \<noteq> None")
    case False
    then have "dropna (r # rows) = dropna rows" by (auto simp: dropna_def r)
    with sh len keys show ?thesis by metis
  next
    case True
    then obtain k' x' y' z' where v: "k = Some k'" "x = Some x'" "y = Some y'" "z = Some z'"
      by auto
    have d: "dropna (r # rows) = r # dropna rows" by (simp add: dropna_def r v)
    with sh have "to_frame (dropna (r # rows)) = merged_frame (k' # cs) (x' # a) (y' # b) (z' # c)"
      by (simp add: to_frame_def merged_frame_def r v)
    moreover have "map Some (k' # cs) = map fst (dropna (r # rows))"
      unfolding d by (simp add: keys r v)
    moreover have "length (x' # a) = length (k' # cs)" "length (y' # b) = length (k' # cs)"
      "length (z' # c) = length (k' # cs)"
      using len by simp_all
    ultimately show ?thesis by blast
  qed
qed

lemma dropna_distinct: "distinct (map fst rows) \<Longrightarrow> distinct (map fst (dropna rows))"
  by (simp add: dropna_def distinct_map_filter)

section \<open>C6\<close>

text \<open>Lines without a country never reach the merged frame: the join can be taken of the
  lines whose country is present.\<close>

lemma merge_on_country_known_left:
  "filter (\<lambda>r. fst r \<noteq> None) (merge_on_country left right)
     = merge_on_country (filter (\<lambda>r. fst r \<noteq> None) left) right"
proof (induction left)
  case Nil
  show ?case by (simp add: merge_on_country_def)
next
  case (Cons r left)
  obtain k a where r: "r = (k, a)" by (cases r)
  have "filter (\<lambda>r. fst r \<noteq> None)
          (map (\<lambda>(k', b). (k, a, b)) (filter (\<lambda>(k', b). k' = k) right))
      = (if k = None then []
         else map (\<lambda>(k', b). (k, a, b)) (filter (\<lambda>(k', b). k' = k) right))"
    by (auto simp: filter_empty_conv intro!: filter_True)
  with Cons show ?case
    unfolding r by (simp add: merge_on_country_Cons)
qed

lemma merge_on_country_known_right:
  "merge_on_country (filter (\<lambda>r. fst r \<noteq> None) left) right
     = merge_on_country (filter (\<lambda>r. fst r \<noteq> None) left) (filter (\<lambda>r. fst r \<noteq> None) right)"
proof (induction left)
  case Nil
  show ?case by (simp add: merge_on_country_def)
next
  case (Cons r left)
  obtain k a where r: "r = (k, a)" by (cases r)
  have "filter (\<lambda>(k', b). k' = k) (filter (\<lambda>r. fst r \<noteq> None) right)
      = filter (\<lambda>(k', b). k' = k) right" if "k \<noteq> None"
    using that by (auto intro!: filter_cong)
  with Cons show ?case
    unfolding r by (simp add: merge_on_country_Cons)
qed

lemma dropna_known: "dropna rows = dropna (filter (\<lambda>r. fst r \<noteq> None) rows)"
  unfolding dropna_def by (auto intro!: filter_cong)

lemma known_countries:
  "map fst (filter (\<lambda>r. fst r \<noteq> None) table) = map Some (present (map fst table))"
  by (induction table) auto

lemma known_distinct:
  "distinct (present (map fst table))
     \<Longrightarrow> distinct (map fst (filter (\<lambda>r. fst r \<noteq> None) table))"
  unfolding known_countries by (simp add: distinct_map)

lemma merged_countries_distinct:
  assumes "distinct (present (map fst A))" "distinct (present (map fst B))"
    "distinct (present (map fst C))"
  shows "distinct (map fst (dropna (merge_on_country (merge_on_country A B) C)))"
proof -
  let ?known = "filter (\<lambda>r. fst r \<noteq> None)"
  have inner: "?known (merge_on_country A B) = merge_on_country (?known A) (?known B)"
  proof -
    have "?known (merge_on_country A B) = merge_on_country (?known A) B"
      by (rule merge_on_country_known_left)
    also have "\<dots> = merge_on_country (?known A) (?known B)"
      by (rule merge_on_country_known_right)
    finally show ?thesis .
  qed
  have "?known (merge_on_country (merge_on_country A B) C)
      = merge_on_country (?known (merge_on_country A B)) C"
    by (rule merge_on_country_known_left)
  also have "\<dots> = merge_on_country (?known (merge_on_country A B)) (?known C)"
    by (rule merge_on_country_known_right)
  finally have "?known (merge_on_country (merge_on_country A B) C)
      = merge_on_country (merge_on_country (?known A) (?known B)) (?known C)"
    unfolding inner .
  moreover have "distinct (map fst (merge_on_country
      (merge_on_country (?known A) (?known B)) (?known C)))"
    using assms by (intro merge_on_country_distinct known_distinct)
  ultimately have "distinct (map fst (?known (merge_on_country (merge_on_country A B) C)))"
    by simp
  then have "distinct (map fst (dropna (?known (merge_on_country (merge_on_country A B) C))))"
    by (rule dropna_distinct)
  then show ?thesis by (simp only: dropna_known [symmetric])
qed

text \<open>
  C6, as the code has it. Every record of the frame that \<^verbatim>\<open>load_and_merge\<close> returns has
  its country and its three indicators present. When none of the three tables names a
  country on two lines of the selected year, the frame has at most one record for a
  country; lines with a blank country do not count, they are dropped. (The code joins
  the tables as they are: a country named twice is merged twice.)
\<close>

theorem load_and_merge_records:
  "\<exists>cs a b c.
      fst (load_and_merge latest_year co2 poverty revenue) = merged_frame cs a b c
    \<and> length a = length cs \<and> length b = length cs \<and> length c = length cs
    \<and> (distinct (present (map fst
           (in_year (snd (load_and_merge latest_year co2 poverty revenue)) co2)))
       \<and> distinct (present (map fst
           (in_year (snd (load_and_merge latest_year co2 poverty revenue)) poverty)))
       \<and> distinct (present (map fst
           (in_year (snd (load_and_merge latest_year co2 poverty revenue)) revenue)))
       \<longrightarrow> distinct cs)"
proof -
  let ?yr = "snd (load_and_merge latest_year co2 poverty revenue)"
  let ?rows = "merge_on_country (merge_on_country (in_year ?yr co2) (in_year ?yr poverty))
                 (in_year ?yr revenue)"
  have f: "fst (load_and_merge latest_year co2 poverty revenue) = to_frame (dropna ?rows)"
    by (simp add: load_and_merge_def Let_def)
  from dropna_keys [of ?rows] obtain cs a b c where
    sh: "to_frame (dropna ?rows) = merged_frame cs a b c"
    and len: "length a = length cs" "length b = length cs" "length c = length cs"
    and keys: "map Some cs = map fst (dropna ?rows)"
    by blast
  have "distinct cs"
    if d: "distinct (present (map fst (in_year ?yr co2)))"
      "distinct (present (map fst (in_year ?yr poverty)))"
      "distinct (present (map fst (in_year ?yr revenue)))"
  proof -
    from d have "distinct (map fst (dropna ?rows))"
      by (rule merged_countries_distinct)
    with keys have "distinct (map Some cs)" by simp
    then show ?thesis by (simp add: distinct_map)
  qed
  with f sh len show ?thesis by metis
qed

theorem load_and_merge_records_witness:
  "distinct (present (map fst (in_year
       (snd (load_and_merge PNone co2_blanks poverty_example revenue_example)) co2_blanks)))
   \<and> distinct (present (map fst (in_year
       (snd (load_and_merge PNone co2_blanks poverty_example revenue_example)) poverty_example)))
   \<and> distinct (present (map fst (in_year
       (snd (load_and_merge PNone co2_blanks poverty_example revenue_example)) revenue_example)))
   \<and> \<not> distinct (map fst (in_year
       (snd (load_and_merge PNone co2_blanks poverty_example revenue_example)) co2_blanks))
   \<and> get_col (fst (load_and_merge PNone co2_blanks poverty_example revenue_example))
        ''country'' = Some (ObjCol [Some ''A'', Some ''B''])
   \<and> (\<exists>cs a b c.
        fst (load_and_merge PNone co2_blanks poverty_example revenue_example)
          = merged_frame cs a b c
      \<and> length a = length cs \<and> length b = length cs \<and> length c = length cs
      \<and> distinct cs)"
proof -
  have d: "distinct (present (map fst (in_year
       (snd (load_and_merge PNone co2_blanks poverty_example revenue_example)) co2_blanks)))"
    "distinct (present (map fst (in_year
       (snd (load_and_merge PNone co2_blanks poverty_example revenue_example)) poverty_example)))"
    "distinct (present (map fst (in_year
       (snd (load_and_merge PNone co2_blanks poverty_example revenue_example)) revenue_example)))"
    by code_simp+
  have n: "\<not> distinct (map fst (in_year
       (snd (load_and_merge PNone co2_blanks poverty_example revenue_example)) co2_blanks))"
    by code_simp
  have g: "get_col (fst (load_and_merge PNone co2_blanks poverty_example revenue_example))
        ''country'' = Some (ObjCol [Some ''A'', Some ''B''])"
    by code_simp
  from load_and_merge_records [of PNone co2_blanks poverty_example revenue_example] d
  have "\<exists>cs a b c.
        fst (load_and_merge PNone co2_blanks poverty_example revenue_example)
          = merged_frame cs a b c
      \<and> length a = length cs \<and> length b = length cs \<and> length c = length cs
      \<and> distinct cs"
    by blast
  with d n g show ?thesis by (intro conjI)
qed

text \<open>
  The claim fails on a table with two lines for one country and year: the country has two
  records in the merged frame.
\<close>

theorem load_and_merge_duplicate_counterexample:
  "get_col (fst (load_and_merge PNone co2_twice poverty_example revenue_example)) ''country''
     = Some (ObjCol [Some ''A'', Some ''A'', Some ''B''])"
  by code_simp

section \<open>Stages only add columns\<close>

lemma length_standard_column: "length (standard_column xs) = length xs"
  by (simp add: standard_column_def Let_def split: list.split)

lemma length_cfi_of: "length (cfi_of a b c) = length a"
  by (simp add: cfi_of_def cfi_column_def)

lemma length_rank_descending: "length (rank_descending xs) = length xs"
  by (simp add: rank_descending_def Let_def)

lemma qcut_length: "qcut x q = Inr codes \<Longrightarrow> length codes = length x"
  by (auto simp: qcut_def Let_def split: list.splits if_splits)

lemma col_len_codes_plus_one: "col_len (codes_plus_one codes) = length codes"
  by (simp add: codes_plus_one_def)

lemma only_adds_columns_refl:
  "distinct (columns df) \<Longrightarrow> list_all (\<lambda>(name, c). col_len c = nrows df) df
     \<Longrightarrow> only_adds_columns df df"
  by (simp add: only_adds_columns_def)

lemma merged_frame_wf:
  assumes "length a = length cs" "length b = length cs" "length c = length cs"
  shows "distinct (columns (merged_frame cs a b c))"
    "list_all (\<lambda>(name, col). col_len col = nrows (merged_frame cs a b c)) (merged_frame cs a b c)"
  using assms by (simp_all add: merged_frame_def columns_def nrows_def)

lemma normalized_frame_wf:
  assumes "length a = length cs" "length b = length cs" "length c = length cs"
  shows "distinct (columns (normalized_frame cs a b c))"
    "list_all (\<lambda>(name, col). col_len col = length cs) (normalized_frame cs a b c)"
  using assms
  by (simp_all add: normalized_frame_def merged_frame_def columns_def length_standard_column)

lemma normalize_only_adds:
  assumes "length a = length cs" "length b = length cs" "length c = length cs"
  shows "only_adds_columns (merged_frame cs a b c) (final_frame (normalize (merged_frame cs a b c)))"
proof (cases "a = []")
  case True
  with assms have e: "cs = []" "a = []" "b = []" "c = []" by simp_all
  show ?thesis
    unfolding e normalize_empty
    by (simp add: only_adds_columns_def merged_frame_def columns_def nrows_def)
next
  case False
  with assms have "b \<noteq> []" "c \<noteq> []" by auto
  with False have n: "normalize (merged_frame cs a b c) = Returns (normalized_frame cs a b c)"
    by (simp add: normalize_merged)
  show ?thesis
    unfolding n using normalized_frame_wf [OF assms]
    by (simp add: only_adds_columns_def nrows_normalized nrows_merged)
       (simp add: normalized_frame_def merged_frame_def)
qed

lemma compute_cfi_only_adds:
  assumes "length a = length cs" "length b = length cs" "length c = length cs"
  shows "only_adds_columns (normalized_frame cs a b c)
           (final_frame (compute_cfi (normalized_frame cs a b c)))"
proof -
  have l: "length b = length a" "length c = length a" using assms by simp_all
  have n: "nrows (normalized_frame cs a b c @ more) = length cs" for more
    by (simp add: nrows_def normalized_frame_def merged_frame_def)
  have d: "distinct (columns (normalized_frame cs a b c @
      [(''CFI'', x), (''CFI_rank'', y), (''CFI_decile'', z)]))" for x y z
    by (simp add: normalized_frame_def merged_frame_def columns_def)
  have d': "distinct (columns (normalized_frame cs a b c @
      [(''CFI'', x), (''CFI_rank'', y)]))" for x y
    by (simp add: normalized_frame_def merged_frame_def columns_def)
  show ?thesis
  proof (cases "qcut (map Some (cfi_of a b c)) 10")
    case (Inl e)
    show ?thesis
      unfolding compute_cfi_normalized [OF l] Inl
      using normalized_frame_wf(2) [OF assms] d' assms
      by (simp add: only_adds_columns_def n nrows_normalized length_cfi_of
          length_rank_descending)
  next
    case (Inr codes)
    from qcut_length [OF Inr] have "length codes = length cs"
      using assms by (simp add: length_cfi_of)
    then show ?thesis
      unfolding compute_cfi_normalized [OF l] Inr
      using normalized_frame_wf(2) [OF assms] d assms
      by (simp add: only_adds_columns_def n nrows_normalized length_cfi_of
          length_rank_descending col_len_codes_plus_one)
  qed
qed

lemma compute_cfi_returns:
  assumes "length a = length cs" "length b = length cs" "length c = length cs"
      and "compute_cfi (normalized_frame cs a b c) = Returns dfc"
  shows "\<exists>x y z. dfc = normalized_frame cs a b c
                      @ [(''CFI'', x), (''CFI_rank'', y), (''CFI_decile'', z)]
           \<and> col_len x = length cs \<and> col_len y = length cs \<and> col_len z = length cs"
proof -
  have l: "length b = length a" "length c = length a" using assms by simp_all
  from assms(4) obtain codes where q: "qcut (map Some (cfi_of a b c)) 10 = Inr codes"
    and dfc: "dfc = normalized_frame cs a b c @
          [(''CFI'', FloatCol (map Some (cfi_of a b c))),
           (''CFI_rank'', FloatCol (rank_descending (map Some (cfi_of a b c)))),
           (''CFI_decile'', codes_plus_one codes)]"
    unfolding compute_cfi_normalized [OF l] by (auto split: sum.splits)
  from qcut_length [OF q] have "length codes = length cs"
    using assms by (simp add: length_cfi_of)
  then show ?thesis
    unfolding dfc using assms
    by (simp add: length_cfi_of length_rank_descending col_len_codes_plus_one)
qed

lemma cluster_countries_only_adds:
  assumes "length a = length cs" "length b = length cs" "length c = length cs"
      and "col_len x = length cs" "col_len y = length cs" "col_len z = length cs"
      and dfc: "dfc = normalized_frame cs a b c
                  @ [(''CFI'', x), (''CFI_rank'', y), (''CFI_decile'', z)]"
  shows "only_adds_columns dfc (final_frame (cluster_countries fit_predict dfc n_clusters))"
proof -
  have n: "nrows dfc = length cs"
    by (simp add: dfc nrows_def normalized_frame_def merged_frame_def)
  have wf: "distinct (columns dfc)" "list_all (\<lambda>(name, col). col_len col = nrows dfc) dfc"
    unfolding n using assms normalized_frame_wf(2) [OF assms(1-3)]
    by (simp_all add: dfc)
       (simp add: normalized_frame_def merged_frame_def columns_def)
  have same: "only_adds_columns dfc dfc"
    using wf by (rule only_adds_columns_refl)
  have sel: "select_floats dfc [''co2_z'', ''poverty_z'', ''revenue_z'']
      = Inr [standard_column (map Some a), standard_column (map Some b),
             standard_column (map Some c)]"
    by (simp add: dfc normalized_frame_def merged_frame_def get_col_def)
  have app: "set_col ''cluster_label'' v (set_col ''cluster'' u dfc)
      = dfc @ [(''cluster'', u), (''cluster_label'', v)]" for u v
    by (simp add: dfc normalized_frame_def merged_frame_def)
  have d: "distinct (columns (dfc @ [(''cluster'', u), (''cluster_label'', v)]))" for u v
    by (simp add: dfc normalized_frame_def merged_frame_def columns_def)
  have n': "nrows (dfc @ more) = length cs" for more
    by (simp add: dfc nrows_def normalized_frame_def merged_frame_def)
  show ?thesis
  proof (cases "fit_predict n_clusters 42 [standard_column (map Some a),
      standard_column (map Some b), standard_column (map Some c)]")
    case (Inl e)
    then show ?thesis
      unfolding cluster_countries_def sel using same by simp
  next
    case (Inr labels)
    show ?thesis
    proof (cases "length labels = nrows dfc")
      case False
      with Inr show ?thesis
        unfolding cluster_countries_def sel using same by simp
    next
      case True
      with Inr show ?thesis
        unfolding cluster_countries_def sel
        using wf(2) d
        by (simp add: Let_def app only_adds_columns_def n n')
    qed
  qed
qed

section \<open>C9\<close>

text \<open>
  C9. On every merged dataset, each of \<^verbatim>\<open>normalize\<close>, \<^verbatim>\<open>compute_cfi\<close> and
  \<^verbatim>\<open>cluster_countries\<close> only adds columns to the frame it is given in the pipeline: the
  columns that were there (the raw indicators and the columns of the earlier stages)
  are unchanged and in their places, with their rows in the same order, the columns
  added have new names, and the number of rows is the same. This holds of the
  frame a stage leaves when it returns and when it raises, for every clusterer and every
  number of clusters.
\<close>

theorem stages_only_add_columns:
  "only_adds_columns (fst (load_and_merge latest_year co2 poverty revenue))
     (final_frame (normalize (fst (load_and_merge latest_year co2 poverty revenue))))
   \<and> (normalize (fst (load_and_merge latest_year co2 poverty revenue)) = Returns dfn
        \<longrightarrow> only_adds_columns dfn (final_frame (compute_cfi dfn)))
   \<and> (normalize (fst (load_and_merge latest_year co2 poverty revenue)) = Returns dfn
        \<and> compute_cfi dfn = Returns dfc
        \<longrightarrow> only_adds_columns dfc (final_frame (cluster_countries fit_predict dfc n_clusters)))"
proof -
  let ?df = "fst (load_and_merge latest_year co2 poverty revenue)"
  have 1: "only_adds_columns ?df (final_frame (normalize ?df))"
  proof -
    obtain cs a b c where "?df = merged_frame cs a b c"
      "length a = length cs" "length b = length cs" "length c = length cs"
      using load_and_merge_shape by blast
    then show ?thesis by (simp add: normalize_only_adds)
  qed
  have 2: "only_adds_columns dfn (final_frame (compute_cfi dfn))"
    if "normalize ?df = Returns dfn"
  proof -
    from normalize_returns [OF that] obtain cs a b c where
      "dfn = normalized_frame cs a b c"
      "length a = length cs" "length b = length cs" "length c = length cs"
      by blast
    then show ?thesis by (simp add: compute_cfi_only_adds)
  qed
  have 3: "only_adds_columns dfc (final_frame (cluster_countries fit_predict dfc n_clusters))"
    if "normalize ?df = Returns dfn" "compute_cfi dfn = Returns dfc"
  proof -
    from normalize_returns [OF that(1)] obtain cs a b c where
      dfn: "dfn = normalized_frame cs a b c"
      and len: "length a = length cs" "length b = length cs" "length c = length cs"
      by blast
    from compute_cfi_returns [OF len that(2) [unfolded dfn]] obtain x y z where
      "dfc = normalized_frame cs a b c @ [(''CFI'', x), (''CFI_rank'', y), (''CFI_decile'', z)]"
      "col_len x = length cs" "col_len y = length cs" "col_len z = length cs"
      by blast
    with len show ?thesis by (intro cluster_countries_only_adds)
  qed
  from 1 2 3 show ?thesis by blast
qed

lemma example_edges:
  "bin_edges [1000000, 2000000 / 4000009, 0, 500000 / 3000009] 10
     = [0, 50000 / 1000003, 100000 / 1000003, 150000 / 1000003,
        2800007200000 / 12000063000081, 4000011250000 / 12000063000081,
        5200015300000 / 12000063000081, 400002700000 / 4000009,
        1600004800000 / 4000009, 2800006900000 / 4000009, 1000000]"
  by code_simp

lemma example_qcut:
  "qcut [Some 1000000, Some (2000000 / 4000009), Some 0, Some (500000 / 3000009)] 10
     = Inr [Some 9, Some 6, Some 0, Some 3]"
  unfolding qcut_def
  by (simp add: example_edges bin_code_def Let_def)

lemma example_codes:
  "codes_plus_one [Some 9, Some 6, Some 0, Some 3] = IntCol [10, 7, 1, 4]"
  by code_simp

lemma example_scored:
  "compute_cfi (normalized_frame [''A'', ''B'', ''C'', ''D''] [1, 5, 10, 4]
                  [1/2, 3/10, 1/10, 1/5] [10, 5, 1, 3])
     = Returns (normalized_frame [''A'', ''B'', ''C'', ''D''] [1, 5, 10, 4]
                  [1/2, 3/10, 1/10, 1/5] [10, 5, 1, 3]
         @ [(''CFI'', FloatCol [Some 1000000, Some (2000000 / 4000009), Some 0,
                                 Some (500000 / 3000009)]),
            (''CFI_rank'', FloatCol [Some 1, Some 2, Some 4, Some 3]),
            (''CFI_decile'', IntCol [10, 7, 1, 4])])"
  by (simp add: compute_cfi_normalized example_cfi example_qcut example_rank [simplified]
      example_codes)

theorem stages_only_add_columns_witness:
  "normalize (fst (load_and_merge PNone co2_example poverty_example revenue_example))
     = Returns (normalized_frame [''A'', ''B'', ''C'', ''D''] [1, 5, 10, 4]
                  [1/2, 3/10, 1/10, 1/5] [10, 5, 1, 3])
   \<and> compute_cfi (normalized_frame [''A'', ''B'', ''C'', ''D''] [1, 5, 10, 4]
                  [1/2, 3/10, 1/10, 1/5] [10, 5, 1, 3])
     = Returns (normalized_frame [''A'', ''B'', ''C'', ''D''] [1, 5, 10, 4]
                  [1/2, 3/10, 1/10, 1/5] [10, 5, 1, 3]
         @ [(''CFI'', FloatCol [Some 1000000, Some (2000000 / 4000009), Some 0,
                                 Some (500000 / 3000009)]),
            (''CFI_rank'', FloatCol [Some 1, Some 2, Some 4, Some 3]),
            (''CFI_decile'', IntCol [10, 7, 1, 4])])
   \<and> only_adds_columns
       (normalized_frame [''A'', ''B'', ''C'', ''D''] [1, 5, 10, 4]
          [1/2, 3/10, 1/10, 1/5] [10, 5, 1, 3])
       (final_frame (compute_cfi (normalized_frame [''A'', ''B'', ''C'', ''D''] [1, 5, 10, 4]
          [1/2, 3/10, 1/10, 1/5] [10, 5, 1, 3])))
   \<and> only_adds_columns
       (normalized_frame [''A'', ''B'', ''C'', ''D''] [1, 5, 10, 4]
                  [1/2, 3/10, 1/10, 1/5] [10, 5, 1, 3]
         @ [(''CFI'', FloatCol [Some 1000000, Some (2000000 / 4000009), Some 0,
                                 Some (500000 / 3000009)]),
            (''CFI_rank'', FloatCol [Some 1, Some 2, Some 4, Some 3]),
            (''CFI_decile'', IntCol [10, 7, 1, 4])])
       (final_frame (cluster_countries kmeans_example
          (normalized_frame [''A'', ''B'', ''C'', ''D''] [1, 5, 10, 4]
                  [1/2, 3/10, 1/10, 1/5] [10, 5, 1, 3]
         @ [(''CFI'', FloatCol [Some 1000000, Some (2000000 / 4000009), Some 0,
                                 Some (500000 / 3000009)]),
            (''CFI_rank'', FloatCol [Some 1, Some 2, Some 4, Some 3]),
            (''CFI_decile'', IntCol [10, 7, 1, 4])]) 4))"
proof -
  let ?N = "normalized_frame [''A'', ''B'', ''C'', ''D''] [1, 5, 10, 4]
              [1/2, 3/10, 1/10, 1/5] [10, 5, 1, 3]"
  let ?S = "?N @ [(''CFI'', FloatCol [Some 1000000, Some (2000000 / 4000009), Some 0,
                                 Some (500000 / 3000009)]),
            (''CFI_rank'', FloatCol [Some 1, Some 2, Some 4, Some 3]),
            (''CFI_decile'', IntCol [10, 7, 1, 4])]"
  note inst = stages_only_add_columns [of PNone co2_example poverty_example revenue_example
      ?N ?S kmeans_example 4]
  from inst have "normalize (fst (load_and_merge PNone co2_example poverty_example
      revenue_example)) = Returns ?N \<longrightarrow> only_adds_columns ?N (final_frame (compute_cfi ?N))"
    by (rule conjunct1 [OF conjunct2])
  with example_normalized have 2: "only_adds_columns ?N (final_frame (compute_cfi ?N))"
    by (rule rev_mp)
  from inst have "normalize (fst (load_and_merge PNone co2_example poverty_example
      revenue_example)) = Returns ?N \<and> compute_cfi ?N = Returns ?S
      \<longrightarrow> only_adds_columns ?S (final_frame (cluster_countries kmeans_example ?S 4))"
    by (rule conjunct2 [OF conjunct2])
  with conjI [OF example_normalized example_scored]
  have 3: "only_adds_columns ?S (final_frame (cluster_countries kmeans_example ?S 4))"
    by (rule rev_mp)
  from example_normalized example_scored 2 3 show ?thesis
    by (intro conjI)
qed

section \<open>Columns the stages leave alone\<close>

lemma set_float_cols_get:
  "n \<notin> set ns \<Longrightarrow> get_col (set_float_cols ns cs df) n = get_col df n"
  by (induction ns cs df rule: set_float_cols.induct) (simp_all add: get_col_set_col)

lemma normalize_keeps:
  assumes "n \<notin> set [''co2_mm'', ''poverty_mm'', ''revenue_mm'',
                      ''co2_z'', ''poverty_z'', ''revenue_z'']"
  shows "get_col (final_frame (normalize df)) n = get_col df n"
  using assms
  by (simp add: normalize_def Let_def set_float_cols_get split: sum.split)

lemma compute_cfi_keeps:
  assumes "n \<notin> set [''CFI'', ''CFI_rank'', ''CFI_decile'']"
  shows "get_col (final_frame (compute_cfi df)) n = get_col df n"
  using assms
  by (simp add: compute_cfi_def Let_def get_col_set_col split: sum.split option.split)

lemma cluster_countries_keeps:
  assumes "n \<notin> set [''cluster'', ''cluster_label'']"
  shows "get_col (final_frame (cluster_countries fit_predict df k)) n = get_col df n"
  using assms
  by (simp add: cluster_countries_def Let_def get_col_set_col split: sum.split)

lemma next_stage_keeps:
  assumes "\<And>d. get_col (final_frame (stage d)) n = get_col d n"
  shows "get_col (final_frame (next_stage r stage)) n = get_col (final_frame r) n"
  using assms by (cases r) simp_all

lemma annotated_no_coordinates:
  "get_col (final_frame (annotated fit_predict co2 poverty revenue)) ''latitude'' = None"
  "get_col (final_frame (annotated fit_predict co2 poverty revenue)) ''longitude'' = None"
proof -
  obtain cs a b c where sh:
    "fst (load_and_merge PNone co2 poverty revenue) = merged_frame cs a b c"
    using load_and_merge_shape by blast
  have m: "get_col (merged_frame cs a b c) ''latitude'' = None"
    "get_col (merged_frame cs a b c) ''longitude'' = None"
    by (simp_all add: merged_frame_def get_col_def)
  show "get_col (final_frame (annotated fit_predict co2 poverty revenue)) ''latitude'' = None"
    unfolding annotated_def Let_def sh
    by (simp add: next_stage_keeps cluster_countries_keeps compute_cfi_keeps normalize_keeps m)
  show "get_col (final_frame (annotated fit_predict co2 poverty revenue)) ''longitude'' = None"
    unfolding annotated_def Let_def sh
    by (simp add: next_stage_keeps cluster_countries_keeps compute_cfi_keeps normalize_keeps m)
qed

section \<open>The markers\<close>

lemma row_marker_None:
  "row_marker df i = Inr None \<longleftrightarrow>
     \<not> (notnull (row_get df i ''latitude'') \<and> notnull (row_get df i ''longitude''))"
  by (auto simp: row_marker_def Let_def split: sum.splits cell.splits)

lemma row_marker_Some:
  assumes "row_marker df i = Inr (Some k)"
  shows "notnull (row_get df i ''latitude'') \<and> notnull (row_get df i ''longitude'')"
    and "location k = (the (row_get df i ''latitude''), the (row_get df i ''longitude''))"
  using assms
  by (auto simp: row_marker_def Let_def split: sum.splits cell.splits if_splits)

lemma add_markers_locations:
  assumes "add_markers df rows m = Inr ms"
  shows "map location ms = map location m @
     map (\<lambda>i. (the (row_get df i ''latitude''), the (row_get df i ''longitude'')))
       (filter (\<lambda>i. notnull (row_get df i ''latitude'') \<and> notnull (row_get df i ''longitude''))
          rows)"
  using assms
proof (induction rows arbitrary: m)
  case Nil
  then show ?case by simp
next
  case (Cons i rows)
  show ?case
  proof (cases "row_marker df i")
    case (Inl e)
    with Cons.prems show ?thesis by simp
  next
    case (Inr r)
    show ?thesis
    proof (cases r)
      case None
      with Inr Cons.prems have "add_markers df rows m = Inr ms" by simp
      from Cons.IH [OF this] row_marker_None [of df i] Inr None show ?thesis by simp
    next
      case (Some k)
      with Inr Cons.prems have "add_markers df rows (m @ [k]) = Inr ms" by simp
      from Cons.IH [OF this] row_marker_Some [of df i k] Inr Some show ?thesis by simp
    qed
  qed
qed

lemma add_markers_none:
  assumes "get_col df ''latitude'' = None"
  shows "add_markers df rows m = Inr m"
proof (induction rows)
  case Nil
  show ?case by simp
next
  case (Cons i rows)
  have "row_get df i ''latitude'' = None" using assms by (simp add: row_get_def)
  then have "row_marker df i = Inr None" by (simp add: row_marker_None)
  with Cons show ?case by simp
qed

section \<open>C8\<close>

text \<open>
  C8. Whenever the marker loop of \<^verbatim>\<open>create_visualizations\<close> runs through on a frame,
  the markers it has added are, in row order, those of the rows whose \<^verbatim>\<open>latitude\<close> and
  \<^verbatim>\<open>longitude\<close> are both not null, each at that row's coordinates. The annotated frame
  of the pipeline has neither column, whatever the inputs and the clusterer: every row
  is skipped and the map has no marker.
\<close>

theorem marker_map_skips_rows_without_coordinates:
  "(cluster_map df = Inr ms \<longrightarrow>
      map location ms =
        map (\<lambda>i. (the (row_get df i ''latitude''), the (row_get df i ''longitude'')))
          (filter (\<lambda>i. notnull (row_get df i ''latitude'')
                        \<and> notnull (row_get df i ''longitude'')) [0..<nrows df]))
   \<and> cluster_map (final_frame (annotated fit_predict co2 poverty revenue)) = Inr []"
proof -
  have "map location ms =
        map (\<lambda>i. (the (row_get df i ''latitude''), the (row_get df i ''longitude'')))
          (filter (\<lambda>i. notnull (row_get df i ''latitude'')
                        \<and> notnull (row_get df i ''longitude'')) [0..<nrows df])"
    if "cluster_map df = Inr ms"
    using add_markers_locations [OF that [unfolded cluster_map_def]] by simp
  moreover have "cluster_map (final_frame (annotated fit_predict co2 poverty revenue)) = Inr []"
    unfolding cluster_map_def
    by (rule add_markers_none) (rule annotated_no_coordinates)
  ultimately show ?thesis by blast
qed

lemma located_example_markers:
  "cluster_map located_example
     = Inr [\<lparr>location = (CFloat 10, CFloat 20), radius = 5, fill_color = ''#636EFA'',
              popup = (CStr ''A'', CStr ''Justice Priorities'')\<rparr>,
            \<lparr>location = (CFloat (- 5), CFloat 40), radius = 5, fill_color = ''#00CC96'',
              popup = (CStr ''C'', CNull)\<rparr>]"
  by code_simp

theorem marker_map_skips_rows_without_coordinates_witness:
  "cluster_map located_example
     = Inr [\<lparr>location = (CFloat 10, CFloat 20), radius = 5, fill_color = ''#636EFA'',
              popup = (CStr ''A'', CStr ''Justice Priorities'')\<rparr>,
            \<lparr>location = (CFloat (- 5), CFloat 40), radius = 5, fill_color = ''#00CC96'',
              popup = (CStr ''C'', CNull)\<rparr>]
   \<and> map (\<lambda>i. (the (row_get located_example i ''latitude''),
                 the (row_get located_example i ''longitude'')))
          (filter (\<lambda>i. notnull (row_get located_example i ''latitude'')
                        \<and> notnull (row_get located_example i ''longitude''))
             [0..<nrows located_example])
       = [(CFloat 10, CFloat 20), (CFloat (- 5), CFloat 40)]
   \<and> cluster_map (final_frame
         (annotated kmeans_example co2_example poverty_example revenue_example)) = Inr []"
proof -
  note inst = marker_map_skips_rows_without_coordinates
    [of located_example _ kmeans_example co2_example poverty_example revenue_example]
  from inst [THEN conjunct1] located_example_markers
  have "map location [\<lparr>location = (CFloat 10, CFloat 20), radius = 5, fill_color = ''#636EFA'',
              popup = (CStr ''A'', CStr ''Justice Priorities'')\<rparr>,
            \<lparr>location = (CFloat (- 5), CFloat 40), radius = 5, fill_color = ''#00CC96'',
              popup = (CStr ''C'', CNull)\<rparr>]
    = map (\<lambda>i. (the (row_get located_example i ''latitude''),
                 the (row_get located_example i ''longitude'')))
          (filter (\<lambda>i. notnull (row_get located_example i ''latitude'')
                        \<and> notnull (row_get located_example i ''longitude''))
             [0..<nrows located_example])"
    by (rule mp)
  then have "map (\<lambda>i. (the (row_get located_example i ''latitude''),
                 the (row_get located_example i ''longitude'')))
          (filter (\<lambda>i. notnull (row_get located_example i ''latitude'')
                        \<and> notnull (row_get located_example i ''longitude''))
             [0..<nrows located_example])
       = [(CFloat 10, CFloat 20), (CFloat (- 5), CFloat 40)]"
    by simp
  with located_example_markers inst [THEN conjunct2] show ?thesis by (intro conjI)
qed

section \<open>Quantiles of a sorted list\<close>

















section \<open>Counting the rows of a decile\<close>






lemma bin_edges_nth:
  "k \<le> 10 \<Longrightarrow> bin_edges p 10 ! k = quantile (sort p) (real k / real 10)"
  unfolding bin_edges_def by (subst nth_map) (simp_all add: nth_upt)








section \<open>C5\<close>










end
